theory Spec2Isabelle
  imports Complex_Main
begin

section \<open>The token-budget batch constructor (translation\_dataset.py)\<close>

text \<open>
  \<^verbatim>\<open>TranslationDataset.collate_fn\<close> encodes the pairs of a batch in input order, keeps
  running maxima of the encoded lengths, accepts a sample while
  \<^verbatim>\<open>(i+1)*(x_max_len+y_max_len) <= max_tokens\<close>, and pads what it accepted.

  The vocabulary class is not part of the sources at hand: its \<^verbatim>\<open>encode\<close> method and
  its \<^verbatim>\<open>pad_id\<close> are fields of a record, so every theorem holds for every encoder.
  Token ids are Python integers (\<open>int\<close>), lengths are \<open>nat\<close>, the optional budget is an
  \<open>int option\<close> (\<open>None\<close> is Python's \<^verbatim>\<open>None\<close>).
\<close>

record vocabulary =
  encode :: "string \<Rightarrow> nat option \<Rightarrow> int list"
  pad_id :: int

record translation_dataset =
  src_vocab :: vocabulary
  trg_vocab :: vocabulary
  max_src_positions :: "nat option"
  max_trg_positions :: "nat option"

text \<open>
  A two-dimensional tensor: its shape and its rows (\<open>shape0\<close> rows of \<open>shape1\<close> entries).
  The shape is kept apart from the rows because a tensor of shape \<open>(0, B)\<close> has no rows
  and still has a second dimension.
\<close>

record tensor2 =
  shape0 :: nat
  shape1 :: nat
  entries :: "int list list"

definition numel :: "tensor2 \<Rightarrow> nat" where
  "numel t = shape0 t * shape1 t"

datatype collate_error = RuntimeError_empty_sequence_list | AssertionError

text \<open>
  The diagnostic of line 65: \<^verbatim>\<open>msg.format(drop_ratio, max_tokens)\<close>. The ratio is the
  Python float \<^verbatim>\<open>1 - ((i+1)/len(batch))\<close>; it is kept here as the exact rational, the
  rounding of the float and the two-decimal formatting are not modelled.
\<close>

datatype collate_warning = Dropping rat int

text \<open>
  \<^verbatim>\<open>torch.nn.utils.rnn.pad_sequence(seqs, batch_first=False, padding_value=v)\<close>: raises on
  an empty list of sequences; otherwise the result has shape \<open>(T, B)\<close> with \<open>T\<close> the
  longest length and \<open>B\<close> the number of sequences, entry \<open>(t, b)\<close> being element \<open>t\<close> of
  sequence \<open>b\<close>, or the padding value past its end.
\<close>

definition max_len :: "int list list \<Rightarrow> nat" where
  "max_len seqs = fold max (map length seqs) 0"

definition pad_sequence :: "int list list \<Rightarrow> int \<Rightarrow> collate_error + tensor2" where
  "pad_sequence seqs v =
     (if seqs = [] then Inl RuntimeError_empty_sequence_list
      else Inr \<lparr> shape0 = max_len seqs, shape1 = length seqs,
                 entries = map (\<lambda>t. map (\<lambda>s. if t < length s then s ! t else v) seqs)
                               [0 ..< max_len seqs] \<rparr>)"

text \<open>The \<^verbatim>\<open>.T\<close> of a two-dimensional tensor.\<close>

definition transpose_T :: "tensor2 \<Rightarrow> tensor2" where
  "transpose_T t =
     \<lparr> shape0 = shape1 t, shape1 = shape0 t,
       entries = map (\<lambda>b. map (\<lambda>r. r ! b) (entries t)) [0 ..< shape1 t] \<rparr>"

text \<open>The variables of the loop of lines 45--66, and what it printed.\<close>

record collate_state =
  x_encoded :: "int list list"
  y_encoded :: "int list list"
  x_max_len :: nat
  y_max_len :: nat
  printed :: "collate_warning list"

definition collate_init :: collate_state where
  "collate_init = \<lparr> x_encoded = [], y_encoded = [], x_max_len = 0, y_max_len = 0, printed = [] \<rparr>"

text \<open>
  The loop \<^verbatim>\<open>for i, (x, y) in enumerate(batch)\<close>: \<open>n\<close> is \<^verbatim>\<open>len(batch)\<close>, \<open>i\<close> the index of
  the head of the remaining samples. The maxima are updated before the test, also for the
  sample that is then rejected; the rejection prints and leaves the loop (\<^verbatim>\<open>break\<close>).
\<close>

fun collate_loop ::
  "translation_dataset \<Rightarrow> int option \<Rightarrow> nat \<Rightarrow> nat \<Rightarrow> (string \<times> string) list \<Rightarrow>
   collate_state \<Rightarrow> collate_state" where
  "collate_loop ds max_tokens n i [] st = st"
| "collate_loop ds max_tokens n i ((x, y) # rest) st =
     (let ex = encode (src_vocab ds) x (max_src_positions ds);
          ey = encode (trg_vocab ds) y (max_trg_positions ds);
          xm = max (x_max_len st) (length ex);
          ym = max (y_max_len st) (length ey);
          st1 = st\<lparr> x_max_len := xm, y_max_len := ym \<rparr>
      in case max_tokens of
           None \<Rightarrow>
             collate_loop ds max_tokens n (i + 1) rest
               (st1\<lparr> x_encoded := x_encoded st @ [ex], y_encoded := y_encoded st @ [ey] \<rparr>)
         | Some b \<Rightarrow>
             if int ((i + 1) * (xm + ym)) \<le> b then
               collate_loop ds max_tokens n (i + 1) rest
                 (st1\<lparr> x_encoded := x_encoded st @ [ex], y_encoded := y_encoded st @ [ey] \<rparr>)
             else
               st1\<lparr> printed := printed st @ [Dropping (1 - of_nat (i + 1) / of_nat n) b] \<rparr>)"

definition collate_accept ::
  "translation_dataset \<Rightarrow> (string \<times> string) list \<Rightarrow> int option \<Rightarrow> collate_state" where
  "collate_accept ds batch max_tokens =
     collate_loop ds max_tokens (length batch) 0 batch collate_init"

text \<open>
  \<^verbatim>\<open>collate_fn\<close>: the loop, the two paddings (an exception of the first one leaves the
  function), the two assertions of lines 73 and 74, and the pair that is returned. The
  first component of the result is what was printed.
\<close>

definition collate_fn ::
  "translation_dataset \<Rightarrow> (string \<times> string) list \<Rightarrow> int option \<Rightarrow>
   collate_warning list \<times> (collate_error + tensor2 \<times> tensor2)" where
  "collate_fn ds batch max_tokens =
     (let st = collate_accept ds batch max_tokens in
      (printed st,
       case pad_sequence (x_encoded st) (pad_id (src_vocab ds)) of
         Inl e \<Rightarrow> Inl e
       | Inr xt \<Rightarrow>
          (case pad_sequence (y_encoded st) (pad_id (trg_vocab ds)) of
             Inl e \<Rightarrow> Inl e
           | Inr yt \<Rightarrow>
              (let x_padded = transpose_T xt; y_padded = transpose_T yt in
               if \<not> (shape0 x_padded = shape0 y_padded \<and> shape0 y_padded = length (x_encoded st))
               then Inl AssertionError
               else if \<not> (case max_tokens of None \<Rightarrow> True
                           | Some b \<Rightarrow> int (numel x_padded + numel y_padded) \<le> b)
               then Inl AssertionError
               else Inr (x_padded, y_padded)))))"

text \<open>
  The running maxima in the words of the specification: the longest encoded source
  (target) among the samples \<open>0 .. i\<close> of the batch.
\<close>

definition running_src_max :: "translation_dataset \<Rightarrow> (string \<times> string) list \<Rightarrow> nat \<Rightarrow> nat" where
  "running_src_max ds batch i =
     fold max (map (\<lambda>(x, y). length (encode (src_vocab ds) x (max_src_positions ds)))
                   (take (i + 1) batch)) 0"

definition running_trg_max :: "translation_dataset \<Rightarrow> (string \<times> string) list \<Rightarrow> nat \<Rightarrow> nat" where
  "running_trg_max ds batch i =
     fold max (map (\<lambda>(x, y). length (encode (trg_vocab ds) y (max_trg_positions ds)))
                   (take (i + 1) batch)) 0"

definition within_budget ::
  "translation_dataset \<Rightarrow> (string \<times> string) list \<Rightarrow> int \<Rightarrow> nat \<Rightarrow> bool" where
  "within_budget ds batch b i \<longleftrightarrow>
     int ((i + 1) * (running_src_max ds batch i + running_trg_max ds batch i)) \<le> b"

abbreviation ex :: "translation_dataset \<Rightarrow> string \<times> string \<Rightarrow> int list" where
  "ex ds p \<equiv> encode (src_vocab ds) (fst p) (max_src_positions ds)"

abbreviation ey :: "translation_dataset \<Rightarrow> string \<times> string \<Rightarrow> int list" where
  "ey ds p \<equiv> encode (trg_vocab ds) (snd p) (max_trg_positions ds)"

text \<open>
  A concrete data set for evaluating the functions: a vocabulary that encodes every
  character of the (possibly truncated) text as the id 1, and pads with 0.
\<close>

definition char_vocab :: vocabulary where
  "char_vocab =
     \<lparr> encode = (\<lambda>s m. map (\<lambda>c. 1) (case m of None \<Rightarrow> s | Some l \<Rightarrow> take l s)),
       pad_id = 0 \<rparr>"

definition char_ds :: translation_dataset where
  "char_ds = \<lparr> src_vocab = char_vocab, trg_vocab = char_vocab,
               max_src_positions = None, max_trg_positions = None \<rparr>"

definition three_pairs :: "(string \<times> string) list" where
  "three_pairs = [(''a'', ''b''), (''c'', ''d''), (''e'', ''f'')]"

section \<open>The stage controller (toolkits/base.py)\<close>

subsection \<open>Strings, dictionaries and the file system\<close>

text \<open>
  Python strings are \<open>string\<close>; \<^verbatim>\<open>x.startswith(p)\<close>, \<^verbatim>\<open>x[3:]\<close> (which is \<open>drop 3 x\<close>),
  \<^verbatim>\<open>str.lower\<close> and \<^verbatim>\<open>str.strip\<close> are modelled on ASCII: \<open>lower\<close> maps \<open>A..Z\<close> to \<open>a..z\<close>
  and \<open>strip\<close> removes the white space characters space, tab, line feed, vertical tab,
  form feed and carriage return at both ends.
\<close>

definition startswith :: "string \<Rightarrow> string \<Rightarrow> bool" where
  "startswith x p \<longleftrightarrow> take (length p) x = p"

definition lower_char :: "char \<Rightarrow> char" where
  "lower_char c =
     (let n = (of_char c :: nat) in if 65 \<le> n \<and> n \<le> 90 then char_of (n + 32) else c)"

definition lower :: "string \<Rightarrow> string" where
  "lower s = map lower_char s"

definition is_space :: "char \<Rightarrow> bool" where
  "is_space c \<longleftrightarrow> (of_char c :: nat) \<in> {32, 9, 10, 11, 12, 13}"

definition strip :: "string \<Rightarrow> string" where
  "strip s = rev (dropWhile is_space (rev (dropWhile is_space s)))"

text \<open>\<^verbatim>\<open>str(beam)\<close> for a Python integer: its decimal digits, with a minus sign below zero.\<close>

fun digits :: "nat \<Rightarrow> string" where
  "digits n = (if n < 10 then [char_of (48 + n)] else digits (n div 10) @ [char_of (48 + n mod 10)])"

definition str_int :: "int \<Rightarrow> string" where
  "str_int i = (if i < 0 then CHR ''-'' # digits (nat (- i)) else digits (nat i))"

text \<open>
  \<^verbatim>\<open>os.path.join(a, b)\<close> for a relative second component, the only use the code makes
  of it: a separator is inserted unless the first component is empty or ends with one.
\<close>

definition path_join :: "string \<Rightarrow> string \<Rightarrow> string" where
  "path_join a b = (if a = [] \<or> last a = CHR ''/'' then a @ b else a @ ''/'' @ b)"

text \<open>
  A Python dictionary keeps its keys in insertion order; assigning to a key that is
  present replaces the value in place. \<open>dict_set\<close> is \<^verbatim>\<open>d[k] = v\<close>, \<open>map_of\<close> reads.
\<close>

fun dict_set :: "'k \<Rightarrow> 'v \<Rightarrow> ('k \<times> 'v) list \<Rightarrow> ('k \<times> 'v) list" where
  "dict_set k v [] = [(k, v)]"
| "dict_set k v ((k', v') # d) = (if k = k' then (k, v) # d else (k', v') # dict_set k v d)"

text \<open>\<^verbatim>\<open>d.update(e)\<close>: the items of \<open>e\<close> are assigned in order.\<close>

definition dict_update :: "('k \<times> 'v) list \<Rightarrow> ('k \<times> 'v) list \<Rightarrow> ('k \<times> 'v) list" where
  "dict_update d e = fold (\<lambda>(k, v). dict_set k v) e d"

text \<open>
  The file system is the only state the controller relies on: a dictionary from paths
  to files, a file being its lines and the time of its last write. The clock advances
  with every write, so a file that is written again is a different file even with the
  same lines. Directories are not modelled (\<^verbatim>\<open>make_dir\<close> has no effect on files), and
  nothing in the modelled functions deletes a file. The trace records the warnings that
  are printed and the calls to the external sub-routines, with their arguments; the
  progress and timing lines are not modelled.
\<close>

type_synonym path = string

record stored_file =
  content :: "string list"
  mtime :: nat

type_synonym fsys = "(path \<times> stored_file) list"

datatype py_error =
    ValueError_languages
  | AssertionError_lang_pair
  | ValueError_line_count nat nat
  | IOError_missing_files
  | FileNotFoundError path
  | KeyError string
  | ExternalError string

datatype call =
    Call_translate path int nat
  | Call_compute_sacrebleu path path path "string set"
  | Call_compute_bertscore path path path string
  | Call_compute_comet path path path path
  | Call_compute_fairseq path path path
  | Call_compute_huggingface path path path path "string set" string

datatype event =
    Warning_not_supported "string set"
  | Score_skipped
  | Called call
  | Parsing_error string py_error
  | Warning_no_metrics string

record world =
  fs :: fsys
  clock :: nat
  trace :: "event list"

definition exists_file :: "world \<Rightarrow> path \<Rightarrow> bool" where
  "exists_file w p \<longleftrightarrow> map_of (fs w) p \<noteq> None"

definition write_file :: "path \<Rightarrow> string list \<Rightarrow> world \<Rightarrow> world" where
  "write_file p ls w =
     w\<lparr> fs := dict_set p \<lparr> content = ls, mtime = clock w \<rparr> (fs w), clock := clock w + 1 \<rparr>"

definition emit :: "event list \<Rightarrow> world \<Rightarrow> world" where
  "emit es w = w\<lparr> trace := trace w @ es \<rparr>"

subsection \<open>Data sets and the compatibility check\<close>

text \<open>
  The attributes of \<^verbatim>\<open>Dataset\<close> that the controller reads. The class itself is not among
  the sources; its path methods are the fields of \<open>layout\<close> below, already applied to
  the toolkit, the run name and the evaluation name, which are fixed during one call.
\<close>

record dataset =
  dataset_name :: string
  dataset_lang_pair :: string
  src_lang :: string
  trg_lang :: string
  subword_model :: string
  vocab_size :: string
  dataset_lines :: string
  test_name :: string
  split_names_lang :: "string list"
  preprocess_predict_fn :: "(string \<Rightarrow> string) option"

record layout =
  run_name :: string
  split_path :: "string \<Rightarrow> path"
  dst_raw_path :: path
  dst_preprocessed_path :: path
  dst_encoded_path :: path
  translations_beam_path :: "string \<Rightarrow> int \<Rightarrow> path"
  translations_beam_scores_path :: "string \<Rightarrow> int \<Rightarrow> path"

text \<open>
  \<^verbatim>\<open>_check_datasets\<close> (the leading underscore is dropped, as for every such name below).
  Both arguments are optional. The two \<^verbatim>\<open>TypeError\<close> branches test
  \<^verbatim>\<open>isinstance(..., Dataset)\<close>, which the type \<open>dataset\<close> makes true.
\<close>

definition check_datasets :: "dataset option \<Rightarrow> dataset option \<Rightarrow> py_error option" where
  "check_datasets train_ds eval_ds =
     (case train_ds of
        None \<Rightarrow> None
      | Some t \<Rightarrow>
         (case eval_ds of
            None \<Rightarrow> None
          | Some e \<Rightarrow>
              if src_lang t \<noteq> src_lang e \<or> trg_lang t \<noteq> trg_lang e
              then Some ValueError_languages else None))"

text \<open>
  The first two statements of \<^verbatim>\<open>translate\<close>, \<^verbatim>\<open>score\<close> and \<^verbatim>\<open>parse_metrics\<close>:
  \<^verbatim>\<open>_check_datasets(train_ds=model_ds, eval_ds=eval_ds)\<close> and the assertion on the
  language pairs.
\<close>

definition check_preprocessing :: "dataset \<Rightarrow> dataset \<Rightarrow> py_error option" where
  "check_preprocessing model_ds eval_ds =
     (case check_datasets (Some model_ds) (Some eval_ds) of
        Some e \<Rightarrow> Some e
      | None \<Rightarrow>
          if dataset_lang_pair model_ds \<noteq> dataset_lang_pair eval_ds
          then Some AssertionError_lang_pair else None)"

subsection \<open>Metrics and tools\<close>

definition TOOL2METRICS :: "(string \<times> string list) list" where
  "TOOL2METRICS =
     [(''sacrebleu'', [''bleu'', ''chrf'', ''ter'']),
      (''bertscore'', [''bertscore'']),
      (''comet'', [''comet'']),
      (''beer'', [''beer'']),
      (''fairseq'', [''fairseq''])]"

text \<open>\<^verbatim>\<open>{m: tool for tool, metrics in TOOL2METRICS.items() for m in metrics}\<close>\<close>

definition METRICS2TOOL :: "(string \<times> string) list" where
  "METRICS2TOOL = concat (map (\<lambda>(tool, metrics). map (\<lambda>m. (m, tool)) metrics) TOOL2METRICS)"

text \<open>\<^verbatim>\<open>self.TOOL2METRICS[tool]\<close> as a set, for the tools of the table.\<close>

definition tool_metrics :: "string \<Rightarrow> string set" where
  "tool_metrics tool = (case map_of TOOL2METRICS tool of None \<Rightarrow> {} | Some ms \<Rightarrow> set ms)"

text \<open>
  \<^verbatim>\<open>_check_supported_metrics\<close>: the valid metrics, and what is printed. The warning
  carries the set of names that are not supported.
\<close>

definition check_supported_metrics :: "string set \<Rightarrow> string set \<Rightarrow> string set \<times> event list" where
  "check_supported_metrics metrics metrics_supported =
     (let metrics_valid = (metrics \<inter> metrics_supported) \<union> {x \<in> metrics. startswith x ''hg_''};
          metrics_non_valid = metrics - metrics_valid
      in (metrics_valid,
          if metrics_non_valid \<noteq> {} then
            Warning_not_supported metrics_non_valid #
              (if metrics = metrics_non_valid then [Score_skipped] else [])
          else []))"

text \<open>\<^verbatim>\<open>BaseTranslator._get_metrics_tool\<close>: the set of tools of the metrics.\<close>

definition get_metrics_tool :: "string set \<Rightarrow> string set" where
  "get_metrics_tool metrics =
     (\<Union>m\<in>metrics.
        case (if startswith m ''hg_'' then Some ''huggingface'' else map_of METRICS2TOOL m) of
          None \<Rightarrow> {}
        | Some m_tool \<Rightarrow> if m_tool \<noteq> [] then {m_tool} else {})"

text \<open>\<^verbatim>\<open>{x[3:] for x in metrics if x.startswith("hg_")}\<close>\<close>

definition hg_metrics :: "string set \<Rightarrow> string set" where
  "hg_metrics metrics = drop 3 ` {x \<in> metrics. startswith x ''hg_''}"

subsection \<open>The external collaborators\<close>

text \<open>
  The functions that \<^verbatim>\<open>base.py\<close> calls and that are not among the sources: the abstract
  engine hooks \<^verbatim>\<open>_preprocess\<close> and \<^verbatim>\<open>_translate\<close>, the file-to-file transforms of
  \<^verbatim>\<open>autonmt.preprocessing.processors\<close> and the scoring sub-routines of
  \<^verbatim>\<open>autonmt.bundle.metrics\<close>. They are the fields of a record, so the theorems hold for
  every engine and every tool. Each of them may raise (\<open>Inl\<close>).

  Modelled from the spec: the engine's decode hook ``writes [the] tokenized hypothesis
  file'' and a scoring sub-routine produces its ``score file at a fixed, predictable
  filename''; so \<open>engine_translate\<close> returns the lines of \<^verbatim>\<open>hyp.tok\<close> and a
  \<^verbatim>\<open>compute_*\<close> function the lines of its \<^verbatim>\<open>output_file\<close>, and the model writes them.
  The file-to-file transforms return \<open>None\<close> when they leave their output file alone
  (they are given \<^verbatim>\<open>force_overwrite\<close> and may skip), and \<open>engine_preprocess\<close> returns
  the files it writes.
\<close>

type_synonym transform = "fsys \<Rightarrow> path \<Rightarrow> path \<Rightarrow> string \<Rightarrow> bool \<Rightarrow> py_error + string list option"

record hooks =
  engine_preprocess :: "fsys \<Rightarrow> bool \<Rightarrow> py_error + (path \<times> string list) list"
  engine_translate :: "fsys \<Rightarrow> path \<Rightarrow> int \<Rightarrow> nat \<Rightarrow> bool \<Rightarrow> py_error + string list"
  preprocess_predict_file :: transform
  encode_file :: transform
  decode_file :: transform
  autoclean :: "string \<Rightarrow> string"
  compute_sacrebleu :: "fsys \<Rightarrow> path \<Rightarrow> path \<Rightarrow> string set \<Rightarrow> py_error + string list"
  compute_bertscore :: "fsys \<Rightarrow> path \<Rightarrow> path \<Rightarrow> string \<Rightarrow> py_error + string list"
  compute_comet :: "fsys \<Rightarrow> path \<Rightarrow> path \<Rightarrow> path \<Rightarrow> py_error + string list"
  compute_fairseq :: "fsys \<Rightarrow> path \<Rightarrow> path \<Rightarrow> py_error + string list"
  compute_huggingface ::
    "fsys \<Rightarrow> path \<Rightarrow> path \<Rightarrow> path \<Rightarrow> string set \<Rightarrow> string \<Rightarrow> py_error + string list"

text \<open>
  The translator object: the engine name, the configuration record (copied into the
  score record as it is) and the filters of the test data, a list of pairs of a name
  and an optional function on the source and reference lines. The constructor replaces
  a missing list by \<^verbatim>\<open>[('', None)]\<close>.
\<close>

type_synonym filter_fn = "string list \<Rightarrow> string list \<Rightarrow> string list \<times> string list"

record 'c translator =
  engine :: string
  config :: 'c
  filter_ts_data_fn :: "(string \<times> filter_fn option) list"

text \<open>
  A statement returns the exception it raised, if any, and the world it left: an
  exception does not undo what was written before it.
\<close>

type_synonym result = "py_error option \<times> world"

fun seq_all :: "(world \<Rightarrow> result) list \<Rightarrow> world \<Rightarrow> result" where
  "seq_all [] w = (None, w)"
| "seq_all (f # rest) w =
     (case f w of (Some e, w') \<Rightarrow> (Some e, w') | (None, w') \<Rightarrow> seq_all rest w')"

text \<open>A \<^verbatim>\<open>for\<close> loop whose body may raise.\<close>

definition for_each :: "('a \<Rightarrow> world \<Rightarrow> result) \<Rightarrow> 'a list \<Rightarrow> world \<Rightarrow> result" where
  "for_each body xs = seq_all (map body xs)"

definition copyfile :: "path \<Rightarrow> path \<Rightarrow> world \<Rightarrow> result" where
  "copyfile src dst w =
     (case map_of (fs w) src of
        None \<Rightarrow> (Some (FileNotFoundError src), w)
      | Some f \<Rightarrow> (None, write_file dst (content f) w))"

definition file_transform :: "transform \<Rightarrow> path \<Rightarrow> path \<Rightarrow> string \<Rightarrow> bool \<Rightarrow> world \<Rightarrow> result" where
  "file_transform t input_file output_file lang force_overwrite w =
     (case t (fs w) input_file output_file lang force_overwrite of
        Inl e \<Rightarrow> (Some e, w)
      | Inr None \<Rightarrow> (None, w)
      | Inr (Some ls) \<Rightarrow> (None, write_file output_file ls w))"

definition count_file_lines :: "world \<Rightarrow> path \<Rightarrow> py_error + nat" where
  "count_file_lines w p =
     (case map_of (fs w) p of None \<Rightarrow> Inl (FileNotFoundError p) | Some f \<Rightarrow> Inr (length (content f)))"

subsection \<open>translate\<close>

text \<open>\<^verbatim>\<open>a in b\<close> on strings, and \<^verbatim>\<open>fname.split('.')[-1]\<close>.\<close>

definition contains :: "string \<Rightarrow> string \<Rightarrow> bool" where
  "contains sub s \<longleftrightarrow> list_ex (\<lambda>i. take (length sub) (drop i s) = sub) [0 ..< Suc (length s)]"

definition last_ext :: "string \<Rightarrow> string" where
  "last_ext s = rev (takeWhile (\<lambda>c. c \<noteq> CHR ''.'') (rev s))"

text \<open>
  Lines 286--306, for one file of the test split: the copy into the raw directory of the
  run, the preprocessing and the encoding.
\<close>

definition stage_file :: "hooks \<Rightarrow> layout \<Rightarrow> bool \<Rightarrow> string \<Rightarrow> world \<Rightarrow> result" where
  "stage_file H L force_overwrite ts_fname =
     (let lang = last_ext ts_fname;
          source_file = path_join (dst_raw_path L) ts_fname;
          preprocessed_file = path_join (dst_preprocessed_path L) ts_fname;
          enc_file = path_join (dst_encoded_path L) ts_fname
      in seq_all
          [copyfile (split_path L ts_fname) source_file,
           file_transform (preprocess_predict_file H) source_file preprocessed_file lang force_overwrite,
           file_transform (encode_file H) preprocessed_file enc_file lang force_overwrite])"

text \<open>Lines 308--316: the engine's preprocessing of the staged data.\<close>

definition preprocess_external :: "hooks \<Rightarrow> bool \<Rightarrow> world \<Rightarrow> result" where
  "preprocess_external H force_overwrite w =
     (case engine_preprocess H (fs w) force_overwrite of
        Inl e \<Rightarrow> (Some e, w)
      | Inr files \<Rightarrow> (None, fold (\<lambda>(p, ls). write_file p ls) files w))"

definition stage_eval :: "hooks \<Rightarrow> layout \<Rightarrow> dataset \<Rightarrow> bool \<Rightarrow> world \<Rightarrow> result" where
  "stage_eval H L eval_ds force_overwrite =
     seq_all
       [for_each (stage_file H L force_overwrite)
          (filter (contains (test_name eval_ds)) (split_names_lang eval_ds)),
        preprocess_external H force_overwrite]"

text \<open>
  Lines 341--357: the raw source and reference of the unit, copied, or filtered when the
  split has a filter function.
\<close>

definition copy_src_ref ::
  "hooks \<Rightarrow> filter_fn option \<Rightarrow> path \<Rightarrow> path \<Rightarrow> path \<Rightarrow> path \<Rightarrow> world \<Rightarrow> result" where
  "copy_src_ref H filter_fn src_input_file ref_input_file src_output_file ref_output_file w =
     (case filter_fn of
        None \<Rightarrow>
          seq_all [copyfile src_input_file src_output_file,
                   copyfile ref_input_file ref_output_file] w
      | Some f \<Rightarrow>
         (case map_of (fs w) src_input_file of
            None \<Rightarrow> (Some (FileNotFoundError src_input_file), w)
          | Some sf \<Rightarrow>
             (case map_of (fs w) ref_input_file of
                None \<Rightarrow> (Some (FileNotFoundError ref_input_file), w)
              | Some rf \<Rightarrow>
                 (case f (map (autoclean H) (content sf)) (map (autoclean H) (content rf)) of
                    (src_ref_lines, trg_ref_lines) \<Rightarrow>
                      (None,
                       write_file ref_output_file (map (autoclean H) trg_ref_lines)
                         (write_file src_output_file (map (autoclean H) src_ref_lines) w))))))"

text \<open>Lines 382--388: the check of the numbers of lines.\<close>

definition check_lines :: "path \<Rightarrow> world \<Rightarrow> result" where
  "check_lines output_path w =
     (case count_file_lines w (path_join output_path ''ref.txt'') of
        Inl e \<Rightarrow> (Some e, w)
      | Inr num_lines_ref \<Rightarrow>
         (case count_file_lines w (path_join output_path ''hyp.txt'') of
            Inl e \<Rightarrow> (Some e, w)
          | Inr num_lines_hyp \<Rightarrow>
              if num_lines_ref \<noteq> num_lines_hyp
              then (Some (ValueError_line_count num_lines_ref num_lines_hyp), w)
              else (None, w)))"

text \<open>The call of the engine's \<^verbatim>\<open>_translate\<close> (lines 334--339), which writes \<^verbatim>\<open>hyp.tok\<close>.\<close>

definition run_translate :: "hooks \<Rightarrow> path \<Rightarrow> int \<Rightarrow> nat \<Rightarrow> bool \<Rightarrow> world \<Rightarrow> result" where
  "run_translate H output_path beam filter_idx force_overwrite w =
     (let w1 = emit [Called (Call_translate output_path beam filter_idx)] w in
      case engine_translate H (fs w1) output_path beam filter_idx force_overwrite of
        Inl e \<Rightarrow> (Some e, w1)
      | Inr toks \<Rightarrow> (None, write_file (path_join output_path ''hyp.tok'') toks w1))"

text \<open>
  The body of the two loops of lines 319--390 for one split (its index, name and filter)
  and one beam. The unit is decoded when \<^verbatim>\<open>force_overwrite\<close> is set or \<^verbatim>\<open>hyp.tok\<close> is
  missing; everything else, the check of the lines included, is inside that branch.
\<close>

definition translate_unit ::
  "hooks \<Rightarrow> layout \<Rightarrow> dataset \<Rightarrow> dataset \<Rightarrow> bool \<Rightarrow>
   nat \<times> string \<times> filter_fn option \<times> int \<Rightarrow> world \<Rightarrow> result" where
  "translate_unit H L model_ds eval_ds force_overwrite u w =
     (case u of (i, fn_name, filter_fn, beam) \<Rightarrow>
      let output_path = translations_beam_path L fn_name beam;
          tok_flag = exists_file w (path_join output_path ''hyp.tok'')
      in if force_overwrite \<or> \<not> tok_flag then
           (let src_input_file =
                  path_join (dst_raw_path L) (test_name eval_ds @ ''.'' @ src_lang model_ds);
                src_output_file = path_join output_path ''src.txt'';
                ref_input_file =
                  path_join (dst_raw_path L) (test_name eval_ds @ ''.'' @ trg_lang model_ds);
                ref_output_file = path_join output_path ''ref.txt''
            in seq_all
                ([run_translate H output_path beam i force_overwrite,
                  copy_src_ref H filter_fn src_input_file ref_input_file
                    src_output_file ref_output_file] @
                 (if preprocess_predict_fn model_ds \<noteq> None then
                    [file_transform (preprocess_predict_file H) src_output_file src_output_file
                       (src_lang model_ds) force_overwrite,
                     file_transform (preprocess_predict_file H) ref_output_file ref_output_file
                       (trg_lang model_ds) force_overwrite]
                  else []) @
                 [file_transform (decode_file H) (path_join output_path ''hyp.tok'')
                    (path_join output_path ''hyp.txt'') (trg_lang model_ds) force_overwrite,
                  check_lines output_path]) w)
         else (None, w))"

text \<open>
  \<^verbatim>\<open>for i, (fn_name, filter_fn) in enumerate(self.filter_ts_data_fn): for beam in beams\<close>:
  the units in the order in which the two loops visit them.
\<close>

definition translate_units ::
  "(string \<times> filter_fn option) list \<Rightarrow> int list \<Rightarrow> (nat \<times> string \<times> filter_fn option \<times> int) list" where
  "translate_units filters beams =
     concat (map (\<lambda>(i, (fn_name, filter_fn)). map (\<lambda>beam. (i, fn_name, filter_fn, beam)) beams)
                 (enumerate 0 filters))"

definition translate ::
  "hooks \<Rightarrow> layout \<Rightarrow> 'c translator \<Rightarrow> dataset \<Rightarrow> dataset \<Rightarrow> int list \<Rightarrow> bool \<Rightarrow> world \<Rightarrow> result" where
  "translate H L self model_ds eval_ds beams force_overwrite w =
     (case check_preprocessing model_ds eval_ds of
        Some e \<Rightarrow> (Some e, w)
      | None \<Rightarrow>
          seq_all
            [stage_eval H L eval_ds force_overwrite,
             for_each (translate_unit H L model_ds eval_ds force_overwrite)
               (translate_units (filter_ts_data_fn self) beams)] w)"

subsection \<open>score\<close>

text \<open>
  One of the five blocks of lines 433--463: the condition on the metrics, the output
  file, the call and what it computes.
\<close>

record step =
  gate :: bool
  output_file :: path
  sub_call :: call
  action :: "fsys \<Rightarrow> py_error + string list"

text \<open>
  A block runs its sub-routine when its condition holds and \<^verbatim>\<open>force_overwrite\<close> is set
  or the output file is missing. There is no \<^verbatim>\<open>try\<close> around the call: an exception of
  the sub-routine leaves \<^verbatim>\<open>score\<close>.
\<close>

definition run_step :: "bool \<Rightarrow> step \<Rightarrow> world \<Rightarrow> result" where
  "run_step force_overwrite s w =
     (if gate s then
        (if force_overwrite \<or> \<not> exists_file w (output_file s) then
           (let w1 = emit [Called (sub_call s)] w in
            case action s (fs w1) of
              Inl e \<Rightarrow> (Some e, w1)
            | Inr ls \<Rightarrow> (None, write_file (output_file s) ls w1))
         else (None, w))
      else (None, w))"

definition score_steps :: "hooks \<Rightarrow> dataset \<Rightarrow> string set \<Rightarrow> path \<Rightarrow> path \<Rightarrow> step list" where
  "score_steps H model_ds metrics beam_path scores_path =
     (let src_file_path = path_join beam_path ''src.txt'';
          ref_file_path = path_join beam_path ''ref.txt'';
          hyp_file_path = path_join beam_path ''hyp.txt''
      in
      [\<lparr> gate = (tool_metrics ''sacrebleu'' \<inter> metrics \<noteq> {}),
         output_file = path_join scores_path ''sacrebleu_scores.json'',
         sub_call = Call_compute_sacrebleu ref_file_path hyp_file_path
                      (path_join scores_path ''sacrebleu_scores.json'') metrics,
         action = (\<lambda>f. compute_sacrebleu H f ref_file_path hyp_file_path metrics) \<rparr>,
       \<lparr> gate = (tool_metrics ''bertscore'' \<inter> metrics \<noteq> {}),
         output_file = path_join scores_path ''bertscore_scores.json'',
         sub_call = Call_compute_bertscore ref_file_path hyp_file_path
                      (path_join scores_path ''bertscore_scores.json'') (trg_lang model_ds),
         action = (\<lambda>f. compute_bertscore H f ref_file_path hyp_file_path (trg_lang model_ds)) \<rparr>,
       \<lparr> gate = (tool_metrics ''comet'' \<inter> metrics \<noteq> {}),
         output_file = path_join scores_path ''comet_scores.json'',
         sub_call = Call_compute_comet src_file_path ref_file_path hyp_file_path
                      (path_join scores_path ''comet_scores.json''),
         action = (\<lambda>f. compute_comet H f src_file_path ref_file_path hyp_file_path) \<rparr>,
       \<lparr> gate = (tool_metrics ''fairseq'' \<inter> metrics \<noteq> {}),
         output_file = path_join scores_path ''fairseq_scores.txt'',
         sub_call = Call_compute_fairseq ref_file_path hyp_file_path
                      (path_join scores_path ''fairseq_scores.txt''),
         action = (\<lambda>f. compute_fairseq H f ref_file_path hyp_file_path) \<rparr>,
       \<lparr> gate = (hg_metrics metrics \<noteq> {}),
         output_file = path_join scores_path ''huggingface_scores.json'',
         sub_call = Call_compute_huggingface src_file_path hyp_file_path ref_file_path
                      (path_join scores_path ''huggingface_scores.json'') (hg_metrics metrics)
                      (trg_lang model_ds),
         action = (\<lambda>f. compute_huggingface H f src_file_path hyp_file_path ref_file_path
                          (hg_metrics metrics) (trg_lang model_ds)) \<rparr>])"

text \<open>The body of the loops of lines 410--465 for one split name and one beam.\<close>

definition score_unit ::
  "hooks \<Rightarrow> layout \<Rightarrow> dataset \<Rightarrow> string set \<Rightarrow> bool \<Rightarrow> string \<times> int \<Rightarrow> world \<Rightarrow> result" where
  "score_unit H L model_ds metrics force_overwrite u w =
     (case u of (fn_name, beam) \<Rightarrow>
      let beam_path = translations_beam_path L fn_name beam;
          scores_path = translations_beam_scores_path L fn_name beam
      in if \<not> (exists_file w (path_join beam_path ''src.txt'') \<and>
                exists_file w (path_join beam_path ''ref.txt'') \<and>
                exists_file w (path_join beam_path ''hyp.txt''))
         then (Some IOError_missing_files, w)
         else for_each (run_step force_overwrite)
                (score_steps H model_ds metrics beam_path scores_path) w)"

definition split_beam_units :: "(string \<times> 'f) list \<Rightarrow> int list \<Rightarrow> (string \<times> int) list" where
  "split_beam_units filters beams =
     concat (map (\<lambda>(fn_name, _). map (\<lambda>beam. (fn_name, beam)) beams) filters)"

definition supported_metrics :: "string set" where
  "supported_metrics = set (map fst METRICS2TOOL)"

definition score ::
  "hooks \<Rightarrow> layout \<Rightarrow> 'c translator \<Rightarrow> dataset \<Rightarrow> dataset \<Rightarrow> int list \<Rightarrow> string set \<Rightarrow>
   bool \<Rightarrow> world \<Rightarrow> result" where
  "score H L self model_ds eval_ds beams metrics force_overwrite w =
     (case check_preprocessing model_ds eval_ds of
        Some e \<Rightarrow> (Some e, w)
      | None \<Rightarrow>
         (case check_supported_metrics metrics supported_metrics of
            (metrics_valid, warnings) \<Rightarrow>
              if metrics_valid = {} then (None, emit warnings w)
              else for_each (score_unit H L model_ds metrics force_overwrite)
                     (split_beam_units (filter_ts_data_fn self) beams) (emit warnings w)))"

subsection \<open>parse\_metrics\<close>

text \<open>
  \<^verbatim>\<open>TOOL_PARSERS\<close>: the file name and the extension of the score file of every tool. The
  parser functions are not among the sources: \<open>m_parser\<close> gives, for a tool and the lines
  of its score file, the dictionary \<^verbatim>\<open>{metric_name: {sub_score: value}}\<close> or the exception
  it raised. The values are of any type \<open>'v\<close>. The tools are iterated as a Python set,
  in an order the language does not fix: \<open>set_order\<close> is that order.
\<close>

definition TOOL_PARSERS :: "(string \<times> string \<times> string) list" where
  "TOOL_PARSERS =
     [(''sacrebleu'', ''sacrebleu_scores'', ''json''),
      (''bertscore'', ''bertscore_scores'', ''json''),
      (''comet'', ''comet_scores'', ''json''),
      (''beer'', ''beer_scores'', ''json''),
      (''huggingface'', ''huggingface_scores'', ''json''),
      (''fairseq'', ''fairseq_scores'', ''txt'')]"

type_synonym 'v metric_scores = "(string \<times> (string \<times> 'v) list) list"

record 'v parsing =
  m_parser :: "string \<Rightarrow> string list \<Rightarrow> py_error + 'v metric_scores"
  set_order :: "string set \<Rightarrow> string list"

text \<open>\<^verbatim>\<open>f"{m_tool}_{m_name}_{score_name}".lower().strip()\<close>\<close>

definition flat_key :: "string \<Rightarrow> string \<Rightarrow> string \<Rightarrow> string" where
  "flat_key m_tool m_name score_name =
     strip (lower (m_tool @ ''_'' @ m_name @ ''_'' @ score_name))"

text \<open>The two loops of lines 523--526 over the parsed dictionary.\<close>

definition flatten_scores ::
  "string \<Rightarrow> 'v metric_scores \<Rightarrow> (string \<times> 'v) list \<Rightarrow> (string \<times> 'v) list" where
  "flatten_scores m_tool m_scores beam_scores =
     fold (\<lambda>(m_name, m_values).
             fold (\<lambda>(score_name, score_value). dict_set (flat_key m_tool m_name score_name) score_value)
                  m_values)
          m_scores beam_scores"

text \<open>
  The loop over the tools of lines 512--530, for one directory of scores. The look-up in
  \<^verbatim>\<open>TOOL_PARSERS\<close> is outside the \<^verbatim>\<open>try\<close>; what the parser raises is caught and printed.
\<close>

fun parse_tools ::
  "'v parsing \<Rightarrow> fsys \<Rightarrow> path \<Rightarrow> string list \<Rightarrow> (string \<times> 'v) list \<times> event list \<Rightarrow>
   py_error + (string \<times> 'v) list \<times> event list" where
  "parse_tools P f scores_path [] st = Inr st"
| "parse_tools P f scores_path (m_tool # rest) st =
     (case map_of TOOL_PARSERS m_tool of
        None \<Rightarrow> Inl (KeyError m_tool)
      | Some (filename, ext) \<Rightarrow>
         (let m_fname = filename @ ''.'' @ ext;
              fname = path_join scores_path m_fname
          in case map_of f fname of
               None \<Rightarrow>
                 parse_tools P f scores_path rest (fst st, snd st @ [Warning_no_metrics m_tool])
             | Some file \<Rightarrow>
                (case m_parser P m_tool (content file) of
                   Inl e \<Rightarrow>
                     parse_tools P f scores_path rest (fst st, snd st @ [Parsing_error m_fname e])
                 | Inr m_scores \<Rightarrow>
                     parse_tools P f scores_path rest
                       (flatten_scores m_tool m_scores (fst st), snd st))))"

text \<open>
  A value of the \<^verbatim>\<open>"translations"\<close> dictionary: the scores of a beam (at the top level),
  or, under the name of a split, a dictionary from beam keys to scores.
\<close>

datatype 'v translation_entry =
    Beam_scores "(string \<times> 'v) list"
  | Split_scores "(string \<times> (string \<times> 'v) list) list"

text \<open>
  Lines 532--535:
  \<^verbatim>\<open>d = {f"beam{str(beam)}": beam_scores}; d = {fn_name: d} if fn_name else d;
  scores["translations"].update(d)\<close>.
\<close>

definition add_beam_scores ::
  "string \<Rightarrow> int \<Rightarrow> (string \<times> 'v) list \<Rightarrow> (string \<times> 'v translation_entry) list \<Rightarrow>
   (string \<times> 'v translation_entry) list" where
  "add_beam_scores fn_name beam beam_scores translations =
     (let d = [(''beam'' @ str_int beam, beam_scores)]
      in if fn_name \<noteq> [] then dict_update translations [(fn_name, Split_scores d)]
         else dict_update translations (map (\<lambda>(k, v). (k, Beam_scores v)) d))"

fun parse_units ::
  "'v parsing \<Rightarrow> fsys \<Rightarrow> layout \<Rightarrow> string list \<Rightarrow> (string \<times> int) list \<Rightarrow>
   (string \<times> 'v translation_entry) list \<times> event list \<Rightarrow>
   py_error + (string \<times> 'v translation_entry) list \<times> event list" where
  "parse_units P f L metric_tools [] st = Inr st"
| "parse_units P f L metric_tools ((fn_name, beam) # rest) st =
     (case parse_tools P f (translations_beam_scores_path L fn_name beam) metric_tools
             ([], snd st) of
        Inl e \<Rightarrow> Inl e
      | Inr (beam_scores, evs) \<Rightarrow>
          parse_units P f L metric_tools rest
            (add_beam_scores fn_name beam beam_scores (fst st), evs))"

record ('c, 'v) score_record =
  sr_engine :: "string option"
  sr_lang_pair :: string
  sr_train_dataset :: string
  sr_eval_dataset :: string
  sr_subword_model :: string
  sr_vocab_size :: string
  sr_run_name :: string
  sr_train_max_lines :: string
  sr_translations :: "(string \<times> 'v translation_entry) list"
  sr_config :: 'c

text \<open>The dictionary of lines 488--499, with its empty \<^verbatim>\<open>"translations"\<close>.\<close>

definition initial_scores ::
  "layout \<Rightarrow> 'c translator \<Rightarrow> dataset \<Rightarrow> dataset \<Rightarrow> string option \<Rightarrow> ('c, 'v) score_record" where
  "initial_scores L self model_ds eval_ds engine_kw =
     \<lparr> sr_engine = engine_kw,
       sr_lang_pair = dataset_lang_pair model_ds,
       sr_train_dataset = dataset_name model_ds,
       sr_eval_dataset = dataset_name eval_ds,
       sr_subword_model = lower (subword_model model_ds),
       sr_vocab_size = lower (vocab_size model_ds),
       sr_run_name = run_name L,
       sr_train_max_lines = dataset_lines model_ds,
       sr_translations = [],
       sr_config = config self \<rparr>"

text \<open>
  \<^verbatim>\<open>parse_metrics\<close> reads the file system and changes nothing. It returns what it
  printed and either an exception, or \<open>None\<close> (the bare \<^verbatim>\<open>return\<close> when no metric is
  valid), or the score record.
\<close>

definition parse_metrics ::
  "'v parsing \<Rightarrow> layout \<Rightarrow> 'c translator \<Rightarrow> dataset \<Rightarrow> dataset \<Rightarrow> int list \<Rightarrow> string set \<Rightarrow>
   string option \<Rightarrow> fsys \<Rightarrow> event list \<times> (py_error + ('c, 'v) score_record option)" where
  "parse_metrics P L self model_ds eval_ds beams metrics engine_kw f =
     (case check_preprocessing model_ds eval_ds of
        Some e \<Rightarrow> ([], Inl e)
      | None \<Rightarrow>
         (case check_supported_metrics metrics supported_metrics of
            (metrics_valid, warnings) \<Rightarrow>
              if metrics_valid = {} then (warnings, Inr None)
              else
                (let metric_tools = set_order P (get_metrics_tool metrics);
                     scores = initial_scores L self model_ds eval_ds engine_kw
                 in case parse_units P f L metric_tools
                        (split_beam_units (filter_ts_data_fn self) beams)
                        (sr_translations scores, warnings) of
                   Inl e \<Rightarrow> (warnings, Inl e)
                 | Inr (tr, evs) \<Rightarrow> (evs, Inr (Some (scores\<lparr> sr_translations := tr \<rparr>))))))"

subsection \<open>A concrete run, for evaluating the functions\<close>

text \<open>
  A German--English model evaluated on its own test split of two sentences. The engine
  below decodes both sentences with beam 1 and loses the second one with beam 5 (a
  truncated output, as after an out-of-memory failure). The transforms leave the text
  as it is, \<^verbatim>\<open>sacrebleu\<close> writes one line and \<^verbatim>\<open>bertscore\<close> raises.
\<close>

definition demo_ds :: dataset where
  "demo_ds =
     \<lparr> dataset_name = ''europarl'', dataset_lang_pair = ''de-en'', src_lang = ''de'',
       trg_lang = ''en'', subword_model = ''Word'', vocab_size = ''8000'',
       dataset_lines = ''100000'', test_name = ''test'',
       split_names_lang = [''train.de'', ''train.en'', ''val.de'', ''val.en'', ''test.de'', ''test.en''],
       preprocess_predict_fn = None \<rparr>"

definition demo_layout :: layout where
  "demo_layout =
     \<lparr> run_name = ''model_europarl'',
       split_path = path_join ''splits'',
       dst_raw_path = ''eval/raw'',
       dst_preprocessed_path = ''eval/preprocessed'',
       dst_encoded_path = ''eval/encoded'',
       translations_beam_path =
         (\<lambda>split_name beam. path_join (path_join ''eval/translations'' (''beam'' @ str_int beam)) split_name),
       translations_beam_scores_path =
         (\<lambda>split_name beam. path_join (path_join ''eval/scores'' (''beam'' @ str_int beam)) split_name) \<rparr>"

definition read_lines :: "fsys \<Rightarrow> path \<Rightarrow> py_error + string list option" where
  "read_lines f p =
     (case map_of f p of None \<Rightarrow> Inl (FileNotFoundError p) | Some x \<Rightarrow> Inr (Some (content x)))"

definition demo_hooks :: hooks where
  "demo_hooks =
     \<lparr> engine_preprocess = (\<lambda>f force. Inr []),
       engine_translate =
         (\<lambda>f output_path beam filter_idx force. Inr (if beam = 5 then [''ein''] else [''ein'', ''zwei''])),
       preprocess_predict_file = (\<lambda>f input output lang force. read_lines f input),
       encode_file = (\<lambda>f input output lang force. read_lines f input),
       decode_file = (\<lambda>f input output lang force. read_lines f input),
       autoclean = (\<lambda>l. l),
       compute_sacrebleu = (\<lambda>f ref hyp metrics. Inr [''bleu 30.0'']),
       compute_bertscore = (\<lambda>f ref hyp lang. Inl (ExternalError ''bertscore'')),
       compute_comet = (\<lambda>f src ref hyp. Inr [''comet 0.5'']),
       compute_fairseq = (\<lambda>f ref hyp. Inr [''fairseq 29.0'']),
       compute_huggingface = (\<lambda>f src hyp ref metrics lang. Inr [''huggingface'']) \<rparr>"

definition demo_translator :: "unit translator" where
  "demo_translator = \<lparr> engine = ''autonmt'', config = (), filter_ts_data_fn = [('''', None)] \<rparr>"

text \<open>The same translator with one named split that keeps every sentence.\<close>

definition split_translator :: "unit translator" where
  "split_translator =
     \<lparr> engine = ''autonmt'', config = (),
       filter_ts_data_fn = [(''short'', Some (\<lambda>src ref. (src, ref)))] \<rparr>"

definition demo_world :: world where
  "demo_world =
     \<lparr> fs = [(''splits/test.de'', \<lparr> content = [''eins'', ''zwei''], mtime = 0 \<rparr>),
             (''splits/test.en'', \<lparr> content = [''one'', ''two''], mtime = 1 \<rparr>)],
       clock = 2, trace = [] \<rparr>"

text \<open>
  Score files of two beams, and parsers that read the number of a one-line file: the
  \<^verbatim>\<open>sacrebleu\<close> file of beam 5 says 5, that of beam 1 says 1.
\<close>

definition demo_parsing :: "nat parsing" where
  "demo_parsing =
     \<lparr> m_parser =
         (\<lambda>tool text. if text = [''5''] then Inr [(''bleu'', [(''score'', 5)])]
                       else if text = [''1''] then Inr [(''bleu'', [(''score'', 1)])]
                       else Inl (ExternalError ''json'')),
       set_order =
         (\<lambda>S. filter (\<lambda>t. t \<in> S) (map fst TOOL_PARSERS)) \<rparr>"

definition scored_fs :: "string \<Rightarrow> fsys" where
  "scored_fs split_name =
     [(path_join (translations_beam_scores_path demo_layout split_name 5) ''sacrebleu_scores.json'',
         \<lparr> content = [''5''], mtime = 0 \<rparr>),
      (path_join (translations_beam_scores_path demo_layout split_name 1) ''sacrebleu_scores.json'',
         \<lparr> content = [''1''], mtime = 1 \<rparr>)]"

text \<open>
  The world after \<^verbatim>\<open>translate\<close> with beam 1 on \<open>demo_world\<close>, and the same world with a
  score file of the huggingface tool already in place.
\<close>

definition translated_world :: world where
  "translated_world =
     \<lparr> fs = [(''splits/test.de'', \<lparr> content = [''eins'', ''zwei''], mtime = 0 \<rparr>),
             (''splits/test.en'', \<lparr> content = [''one'', ''two''], mtime = 1 \<rparr>),
             (''eval/raw/test.de'', \<lparr> content = [''eins'', ''zwei''], mtime = 2 \<rparr>),
             (''eval/preprocessed/test.de'', \<lparr> content = [''eins'', ''zwei''], mtime = 3 \<rparr>),
             (''eval/encoded/test.de'', \<lparr> content = [''eins'', ''zwei''], mtime = 4 \<rparr>),
             (''eval/raw/test.en'', \<lparr> content = [''one'', ''two''], mtime = 5 \<rparr>),
             (''eval/preprocessed/test.en'', \<lparr> content = [''one'', ''two''], mtime = 6 \<rparr>),
             (''eval/encoded/test.en'', \<lparr> content = [''one'', ''two''], mtime = 7 \<rparr>),
             (''eval/translations/beam1/hyp.tok'', \<lparr> content = [''ein'', ''zwei''], mtime = 8 \<rparr>),
             (''eval/translations/beam1/src.txt'', \<lparr> content = [''eins'', ''zwei''], mtime = 9 \<rparr>),
             (''eval/translations/beam1/ref.txt'', \<lparr> content = [''one'', ''two''], mtime = 10 \<rparr>),
             (''eval/translations/beam1/hyp.txt'', \<lparr> content = [''ein'', ''zwei''], mtime = 11 \<rparr>)],
       clock = 12,
       trace = [Called (Call_translate ''eval/translations/beam1/'' 1 0)] \<rparr>"

definition cached_world :: world where
  "cached_world =
     translated_world
       \<lparr> fs := fs translated_world @
                [(''eval/scores/beam1/huggingface_scores.json'',
                  \<lparr> content = [''meteor 0.3''], mtime = 12 \<rparr>)],
         clock := 13 \<rparr>"

text \<open>
  The world that \<^verbatim>\<open>translate\<close> with beam 5 leaves behind on \<open>demo_world\<close> when it raises
  on the numbers of lines: \<^verbatim>\<open>hyp.tok\<close> and \<^verbatim>\<open>hyp.txt\<close> have one line, \<^verbatim>\<open>ref.txt\<close> has two.
\<close>

definition truncated_world :: world where
  "truncated_world =
     \<lparr> fs = [(''splits/test.de'', \<lparr> content = [''eins'', ''zwei''], mtime = 0 \<rparr>),
             (''splits/test.en'', \<lparr> content = [''one'', ''two''], mtime = 1 \<rparr>),
             (''eval/raw/test.de'', \<lparr> content = [''eins'', ''zwei''], mtime = 2 \<rparr>),
             (''eval/preprocessed/test.de'', \<lparr> content = [''eins'', ''zwei''], mtime = 3 \<rparr>),
             (''eval/encoded/test.de'', \<lparr> content = [''eins'', ''zwei''], mtime = 4 \<rparr>),
             (''eval/raw/test.en'', \<lparr> content = [''one'', ''two''], mtime = 5 \<rparr>),
             (''eval/preprocessed/test.en'', \<lparr> content = [''one'', ''two''], mtime = 6 \<rparr>),
             (''eval/encoded/test.en'', \<lparr> content = [''one'', ''two''], mtime = 7 \<rparr>),
             (''eval/translations/beam5/hyp.tok'', \<lparr> content = [''ein''], mtime = 8 \<rparr>),
             (''eval/translations/beam5/src.txt'', \<lparr> content = [''eins'', ''zwei''], mtime = 9 \<rparr>),
             (''eval/translations/beam5/ref.txt'', \<lparr> content = [''one'', ''two''], mtime = 10 \<rparr>),
             (''eval/translations/beam5/hyp.txt'', \<lparr> content = [''ein''], mtime = 11 \<rparr>)],
       clock = 12,
       trace = [Called (Call_translate ''eval/translations/beam5/'' 5 0)] \<rparr>"





subsection \<open>Notions for the properties of repeated calls\<close>

text \<open>
  A statement keeps the files when every file that exists before it exists after it,
  whether it raises or not. It only writes \<open>S\<close> when it leaves every file outside \<open>S\<close>
  as it is (lines and time of writing) and adds nothing to the trace. The staged paths
  are the targets of the copy, the preprocessing and the encoding of the test files
  (lines 286--306).
\<close>

definition keeps_files :: "(world \<Rightarrow> result) \<Rightarrow> bool" where
  "keeps_files f \<longleftrightarrow> (\<forall>w r w' p. f w = (r, w') \<longrightarrow> exists_file w p \<longrightarrow> exists_file w' p)"

definition only_writes :: "path set \<Rightarrow> (world \<Rightarrow> result) \<Rightarrow> bool" where
  "only_writes S f \<longleftrightarrow>
     (\<forall>w r w'. f w = (r, w') \<longrightarrow>
        trace w' = trace w \<and> (\<forall>p. p \<notin> S \<longrightarrow> map_of (fs w') p = map_of (fs w) p))"

definition staged_paths :: "layout \<Rightarrow> dataset \<Rightarrow> path set" where
  "staged_paths L eval_ds =
     set (concat (map (\<lambda>ts_fname.
                         [path_join (dst_raw_path L) ts_fname,
                          path_join (dst_preprocessed_path L) ts_fname,
                          path_join (dst_encoded_path L) ts_fname])
                      (filter (contains (test_name eval_ds)) (split_names_lang eval_ds))))"

text \<open>The completion marker of a unit of \<^verbatim>\<open>translate\<close>.\<close>

definition marker :: "layout \<Rightarrow> nat \<times> string \<times> filter_fn option \<times> int \<Rightarrow> path" where
  "marker L u = (case u of (i, fn_name, filter_fn, beam) \<Rightarrow>
     path_join (translations_beam_path L fn_name beam) ''hyp.tok'')"

(*DEFS*)

section \<open>Proofs\<close>

subsection \<open>The batch constructor\<close>

lemma fold_max_snoc: "fold max (xs @ [a]) (m::nat) = max (fold max xs m) a"
  by simp

lemma running_src_max_eq:
  "running_src_max ds batch i = fold max (map (\<lambda>p. length (ex ds p)) (take (i + 1) batch)) 0"
  by (simp add: running_src_max_def case_prod_unfold)

lemma running_trg_max_eq:
  "running_trg_max ds batch i = fold max (map (\<lambda>p. length (ey ds p)) (take (i + 1) batch)) 0"
  by (simp add: running_trg_max_def case_prod_unfold)

lemma collate_loop_None:
  "x_encoded (collate_loop ds None n i rest st) = x_encoded st @ map (ex ds) rest \<and>
   y_encoded (collate_loop ds None n i rest st) = y_encoded st @ map (ey ds) rest \<and>
   printed (collate_loop ds None n i rest st) = printed st"
  by (induction rest arbitrary: i st) (auto simp: Let_def)

lemma collate_loop_Some:
  assumes "batch = pre @ rest" "i = length pre"
    "x_encoded st = map (ex ds) pre" "y_encoded st = map (ey ds) pre"
    "x_max_len st = fold max (map (\<lambda>p. length (ex ds p)) pre) 0"
    "y_max_len st = fold max (map (\<lambda>p. length (ey ds p)) pre) 0"
    "res = collate_loop ds (Some b) n i rest st" "k = length (x_encoded res)"
  shows "x_encoded res = map (ex ds) (take k batch) \<and>
         y_encoded res = map (ey ds) (take k batch) \<and>
         i \<le> k \<and> k \<le> length batch \<and>
         (\<forall>j. i \<le> j \<and> j < k \<longrightarrow> within_budget ds batch b j) \<and>
         (k < length batch \<longrightarrow> \<not> within_budget ds batch b k \<and>
              printed res = printed st @ [Dropping (1 - of_nat (k + 1) / of_nat n) b]) \<and>
         (k = length batch \<longrightarrow> printed res = printed st)"
  using assms
proof (induction rest arbitrary: pre i st)
  case Nil
  then show ?case by auto
next
  case (Cons p rest)
  obtain x y where p: "p = (x, y)" by (cases p)
  let ?xm = "max (x_max_len st) (length (ex ds p))"
  let ?ym = "max (y_max_len st) (length (ey ds p))"
  have tk: "take (i + 1) batch = pre @ [p]" using Cons.prems by simp
  have rs: "running_src_max ds batch i = ?xm"
    unfolding running_src_max_eq tk using Cons.prems by simp
  have rt: "running_trg_max ds batch i = ?ym"
    unfolding running_trg_max_eq tk using Cons.prems by simp
  have wb: "within_budget ds batch b i \<longleftrightarrow> int ((i + 1) * (?xm + ?ym)) \<le> b"
    by (simp add: within_budget_def rs rt)
  show ?case
  proof (cases "within_budget ds batch b i")
    case True
    let ?st' = "st\<lparr> x_max_len := ?xm, y_max_len := ?ym,
                   x_encoded := x_encoded st @ [ex ds p], y_encoded := y_encoded st @ [ey ds p] \<rparr>"
    have res: "res = collate_loop ds (Some b) n (i + 1) rest ?st'"
      using True wb Cons.prems(7) by (simp add: p Let_def)
    have IH: "x_encoded res = map (ex ds) (take k batch) \<and>
         y_encoded res = map (ey ds) (take k batch) \<and>
         i + 1 \<le> k \<and> k \<le> length batch \<and>
         (\<forall>j. i + 1 \<le> j \<and> j < k \<longrightarrow> within_budget ds batch b j) \<and>
         (k < length batch \<longrightarrow> \<not> within_budget ds batch b k \<and>
              printed res = printed ?st' @ [Dropping (1 - of_nat (k + 1) / of_nat n) b]) \<and>
         (k = length batch \<longrightarrow> printed res = printed ?st')"
      by (rule Cons.IH[of "pre @ [p]" "i + 1" ?st']) (use Cons.prems res in simp_all)
    have "\<And>j. i \<le> j \<Longrightarrow> j < k \<Longrightarrow> within_budget ds batch b j"
    proof -
      fix j assume "i \<le> j" "j < k"
      show "within_budget ds batch b j"
      proof (cases "j = i")
        case True then show ?thesis using \<open>within_budget ds batch b i\<close> by simp
      next
        case False then show ?thesis using IH \<open>i \<le> j\<close> \<open>j < k\<close> by simp
      qed
    qed
    then show ?thesis using IH by simp
  next
    case False
    have res: "res = st\<lparr> x_max_len := ?xm, y_max_len := ?ym,
                 printed := printed st @ [Dropping (1 - of_nat (i + 1) / of_nat n) b] \<rparr>"
      using False wb Cons.prems(7) by (simp add: p Let_def)
    have k: "k = i" using res Cons.prems by simp
    show ?thesis using res k False Cons.prems by auto
  qed
qed


lemma max_len_map: "max_len (map f xs) = fold max (map (\<lambda>p. length (f p)) xs) 0"
  by (simp add: max_len_def comp_def)

lemma pad_sequence_shape:
  "seqs \<noteq> [] \<Longrightarrow> \<exists>t. pad_sequence seqs v = Inr t \<and> shape0 (transpose_T t) = length seqs \<and>
     shape1 (transpose_T t) = max_len seqs"
  by (simp add: pad_sequence_def transpose_T_def)

lemma collate_accept_Some:
  assumes "st = collate_accept ds batch (Some b)" "k = length (x_encoded st)"
  shows "x_encoded st = map (ex ds) (take k batch) \<and>
         y_encoded st = map (ey ds) (take k batch) \<and> k \<le> length batch \<and>
         (\<forall>j<k. within_budget ds batch b j) \<and>
         (k < length batch \<longrightarrow> \<not> within_budget ds batch b k \<and>
              printed st = [Dropping (1 - of_nat (k + 1) / of_nat (length batch)) b]) \<and>
         (k = length batch \<longrightarrow> printed st = [])"
  using collate_loop_Some[of batch "[]" batch 0 collate_init ds st b "length batch" k] assms
  by (simp add: collate_accept_def collate_init_def)

lemma collate_accept_None:
  "x_encoded (collate_accept ds batch None) = map (ex ds) batch \<and>
   y_encoded (collate_accept ds batch None) = map (ey ds) batch \<and>
   printed (collate_accept ds batch None) = []"
  using collate_loop_None[of ds "length batch" 0 batch collate_init]
  by (simp add: collate_accept_def collate_init_def)

lemma collate_accept_lengths:
  "length (y_encoded (collate_accept ds batch mt)) = length (x_encoded (collate_accept ds batch mt))"
proof (cases mt)
  case None then show ?thesis by (simp add: collate_accept_None)
next
  case (Some b)
  show ?thesis
    using collate_accept_Some[OF refl refl, of ds batch b] unfolding Some
    by (metis length_map)
qed

lemma collate_accept_numel:
  assumes "st = collate_accept ds batch (Some b)" "k = length (x_encoded st)" "0 < k"
  shows "int (k * max_len (x_encoded st) + k * max_len (y_encoded st)) \<le> b"
proof -
  note A = collate_accept_Some[OF assms(1,2)]
  have wb: "within_budget ds batch b (k - 1)" using A assms(3) by simp
  have k1: "k - 1 + 1 = k" using assms(3) by simp
  have mx: "max_len (x_encoded st) = running_src_max ds batch (k - 1)"
    using A assms(3) by (simp add: max_len_map running_src_max_eq)
  have my: "max_len (y_encoded st) = running_trg_max ds batch (k - 1)"
    using A assms(3) by (simp add: max_len_map running_trg_max_eq)
  show ?thesis using wb unfolding within_budget_def mx my k1
    by (simp add: distrib_left)
qed

lemma collate_fn_returns:
  assumes "st = collate_accept ds batch mt" "k = length (x_encoded st)" "0 < k"
  shows "\<exists>xp yp. snd (collate_fn ds batch mt) = Inr (xp, yp) \<and> shape0 xp = k \<and> shape0 yp = k \<and>
           numel xp = k * max_len (x_encoded st) \<and> numel yp = k * max_len (y_encoded st)"
proof -
  have xne: "x_encoded st \<noteq> []" using assms by auto
  have yl: "length (y_encoded st) = k" using assms collate_accept_lengths by simp
  then have yne: "y_encoded st \<noteq> []" using assms(3) by auto
  obtain xt where xt: "pad_sequence (x_encoded st) (pad_id (src_vocab ds)) = Inr xt"
      "shape0 (transpose_T xt) = k" "shape1 (transpose_T xt) = max_len (x_encoded st)"
    using pad_sequence_shape[OF xne] assms(2) by blast
  obtain yt where yt: "pad_sequence (y_encoded st) (pad_id (trg_vocab ds)) = Inr yt"
      "shape0 (transpose_T yt) = k" "shape1 (transpose_T yt) = max_len (y_encoded st)"
    using pad_sequence_shape[OF yne] yl by blast
  have bud: "(case mt of None \<Rightarrow> True
      | Some b \<Rightarrow> int (numel (transpose_T xt) + numel (transpose_T yt)) \<le> b)"
  proof (cases mt)
    case None then show ?thesis by simp
  next
    case (Some b)
    then show ?thesis
      using collate_accept_numel[of st ds batch b k] assms xt yt by (simp add: numel_def)
  qed
  have "snd (collate_fn ds batch mt) = Inr (transpose_T xt, transpose_T yt)"
    using xt yt bud assms(1,2) by (simp add: collate_fn_def Let_def)
  then show ?thesis using xt yt by (simp add: numel_def)
qed

lemma collate_fn_fails_empty:
  assumes "x_encoded (collate_accept ds batch mt) = []"
  shows "snd (collate_fn ds batch mt) = Inl RuntimeError_empty_sequence_list"
  using assms by (simp add: collate_fn_def Let_def pad_sequence_def)

text \<open>
  Claim C5. For every batch and every budget, with \<open>k\<close> the number of accepted samples:
  the accepted sequences are the encodings of the first \<open>k\<close> samples, in order
  (the loop stops at the first rejection), \<open>k\<close> is at most the length of the batch, every
  accepted index \<open>i\<close> satisfies \<open>(i+1) * (running_src_max + running_trg_max) \<le> B\<close> and
  the first index that is not accepted violates it; without a budget all samples are
  accepted. Whenever the function returns its two arrays, both have \<open>k\<close> as leading
  dimension and their total number of elements is within the budget; and it does return
  them whenever at least one sample was accepted.
\<close>

theorem collate_fn_budget:
  "let st = collate_accept ds batch max_tokens; k = length (x_encoded st) in
     k \<le> length batch \<and> length (y_encoded st) = k \<and>
     x_encoded st = map (ex ds) (take k batch) \<and>
     y_encoded st = map (ey ds) (take k batch) \<and>
     (\<forall>b. max_tokens = Some b \<longrightarrow>
        (\<forall>i<k. within_budget ds batch b i) \<and>
        (k < length batch \<longrightarrow> \<not> within_budget ds batch b k)) \<and>
     (max_tokens = None \<longrightarrow> k = length batch) \<and>
     (0 < k \<longrightarrow> (\<exists>xp yp. snd (collate_fn ds batch max_tokens) = Inr (xp, yp))) \<and>
     (\<forall>xp yp. snd (collate_fn ds batch max_tokens) = Inr (xp, yp) \<longrightarrow>
        shape0 xp = k \<and> shape0 yp = k \<and>
        (\<forall>b. max_tokens = Some b \<longrightarrow> int (numel xp + numel yp) \<le> b))"
proof -
  define st where "st = collate_accept ds batch max_tokens"
  define k where "k = length (x_encoded st)"
  have len: "length (y_encoded st) = k"
    unfolding st_def k_def by (rule collate_accept_lengths)
  have acc: "k \<le> length batch \<and> x_encoded st = map (ex ds) (take k batch) \<and>
     y_encoded st = map (ey ds) (take k batch) \<and>
     (\<forall>b. max_tokens = Some b \<longrightarrow>
        (\<forall>i<k. within_budget ds batch b i) \<and>
        (k < length batch \<longrightarrow> \<not> within_budget ds batch b k)) \<and>
     (max_tokens = None \<longrightarrow> k = length batch)"
  proof (cases max_tokens)
    case None
    then show ?thesis
      using collate_accept_None[of ds batch] by (simp add: st_def k_def)
  next
    case (Some b)
    then show ?thesis
      using collate_accept_Some[of st ds batch b k] by (simp add: st_def k_def)
  qed
  have ret: "0 < k \<longrightarrow> (\<exists>xp yp. snd (collate_fn ds batch max_tokens) = Inr (xp, yp))"
    using collate_fn_returns[of st ds batch max_tokens k] st_def k_def by blast
  have post: "shape0 xp = k \<and> shape0 yp = k \<and>
        (\<forall>b. max_tokens = Some b \<longrightarrow> int (numel xp + numel yp) \<le> b)"
    if r: "snd (collate_fn ds batch max_tokens) = Inr (xp, yp)" for xp yp
  proof -
    have "x_encoded st \<noteq> []"
      using collate_fn_fails_empty[of ds batch max_tokens] r by (auto simp: st_def)
    then have pos: "0 < k" by (simp add: k_def)
    obtain xp' yp' where R: "snd (collate_fn ds batch max_tokens) = Inr (xp', yp')"
        "shape0 xp' = k" "shape0 yp' = k"
        "numel xp' = k * max_len (x_encoded st)" "numel yp' = k * max_len (y_encoded st)"
      using collate_fn_returns[OF st_def k_def pos] by blast
    have eq: "xp' = xp" "yp' = yp" using R(1) r by simp_all
    have "int (numel xp + numel yp) \<le> b" if "max_tokens = Some b" for b
      using collate_accept_numel[of st ds batch b k] that pos R(4,5) eq
      by (simp add: st_def k_def)
    then show ?thesis using R(2,3) eq by simp
  qed
  show ?thesis
    unfolding Let_def st_def[symmetric] k_def[symmetric]
    using len acc ret post by blast
qed

theorem collate_fn_budget_witness:
  "length (x_encoded (collate_accept char_ds three_pairs (Some 4))) = 2 \<and>
   within_budget char_ds three_pairs 4 0 \<and> within_budget char_ds three_pairs 4 1 \<and>
   \<not> within_budget char_ds three_pairs 4 2 \<and>
   (\<exists>xp yp. snd (collate_fn char_ds three_pairs (Some 4)) = Inr (xp, yp) \<and>
      shape0 xp = 2 \<and> shape0 yp = 2 \<and> int (numel xp + numel yp) \<le> 4)"
proof -
  have k: "length (x_encoded (collate_accept char_ds three_pairs (Some 4))) = 2"
    by (simp add: collate_accept_def collate_init_def char_ds_def char_vocab_def
        three_pairs_def Let_def)
  have n: "length three_pairs = 3" by (simp add: three_pairs_def)
  have lt: "(0::nat) < 2" "(1::nat) < 2" by simp_all
  show ?thesis
    using collate_fn_budget[of char_ds three_pairs "Some 4"] lt
    unfolding Let_def k n by fastforce
qed

text \<open>
  Claim C9. If the first sample of a batch already exceeds a finite budget, no sequence
  is accepted, \<^verbatim>\<open>pad_sequence\<close> receives the empty list and the function fails instead
  of returning a pair of empty arrays; and whenever the function returns its two arrays,
  at least one sample was accepted.
\<close>

theorem collate_fn_needs_one_sample:
  "(\<not> int (1 * (length (ex ds (x, y)) + length (ey ds (x, y)))) \<le> b \<longrightarrow>
      x_encoded (collate_accept ds ((x, y) # rest) (Some b)) = [] \<and>
      snd (collate_fn ds ((x, y) # rest) (Some b)) = Inl RuntimeError_empty_sequence_list) \<and>
   (snd (collate_fn ds batch max_tokens) = Inr (xp, yp) \<longrightarrow>
      0 < length (x_encoded (collate_accept ds batch max_tokens)) \<and>
      shape0 xp = length (x_encoded (collate_accept ds batch max_tokens)))"
proof -
  have a: "x_encoded (collate_accept ds ((x, y) # rest) (Some b)) = []"
    if "\<not> int (1 * (length (ex ds (x, y)) + length (ey ds (x, y)))) \<le> b"
    using that by (simp add: collate_accept_def collate_init_def Let_def)
  have b: "0 < length (x_encoded (collate_accept ds batch max_tokens)) \<and>
      shape0 xp = length (x_encoded (collate_accept ds batch max_tokens))"
    if r: "snd (collate_fn ds batch max_tokens) = Inr (xp, yp)"
  proof -
    have "x_encoded (collate_accept ds batch max_tokens) \<noteq> []"
      using collate_fn_fails_empty[of ds batch max_tokens] r by auto
    then have pos: "0 < length (x_encoded (collate_accept ds batch max_tokens))" by simp
    show ?thesis using collate_fn_returns[OF refl refl pos] r pos by auto
  qed
  show ?thesis using a b collate_fn_fails_empty by blast
qed

theorem collate_fn_needs_one_sample_witness:
  "collate_fn char_ds three_pairs (Some 1) =
     ([Dropping (2 / 3) 1], Inl RuntimeError_empty_sequence_list) \<and>
   0 < length (x_encoded (collate_accept char_ds three_pairs (Some 4)))"
proof -
  have r: "snd (collate_fn char_ds three_pairs (Some 4)) =
     Inr (\<lparr>shape0 = 2, shape1 = 1, entries = [[1], [1]]\<rparr>,
          \<lparr>shape0 = 2, shape1 = 1, entries = [[1], [1]]\<rparr>)"
    by (simp add: collate_fn_def pad_sequence_def transpose_T_def max_len_def numel_def
        collate_accept_def collate_init_def char_ds_def char_vocab_def three_pairs_def Let_def)
  have h: "\<not> int (1 * (length (ex char_ds (''a'', ''b'')) + length (ey char_ds (''a'', ''b'')))) \<le> 1"
    by (simp add: char_ds_def char_vocab_def)
  have p: "fst (collate_fn char_ds three_pairs (Some 1)) = [Dropping (2 / 3) 1]"
    by (simp add: collate_fn_def collate_accept_def collate_init_def char_ds_def
        char_vocab_def three_pairs_def Let_def)
  have "snd (collate_fn char_ds three_pairs (Some 1)) = Inl RuntimeError_empty_sequence_list"
    using collate_fn_needs_one_sample[of char_ds "''a''" "''b''" 1
        "[(''c'', ''d''), (''e'', ''f'')]" three_pairs "Some 4"] h
    by (simp add: three_pairs_def)
  moreover have "0 < length (x_encoded (collate_accept char_ds three_pairs (Some 4)))"
    using collate_fn_needs_one_sample[of char_ds "''a''" "''b''" 1
        "[(''c'', ''d''), (''e'', ''f'')]" three_pairs "Some 4"] r by blast
  ultimately show ?thesis using p by (simp add: prod_eq_iff)
qed

text \<open>
  Claim C6, evaluated on the code. Three pairs of one token each and a budget of 4: the
  first two samples are accepted (\<open>1 * 2 \<le> 4\<close>, \<open>2 * 2 \<le> 4\<close>), the third is rejected
  (\<open>3 * 2 > 4\<close>), so one third of the batch is dropped. The diagnostic is computed from
  the index of the rejected sample as \<^verbatim>\<open>1 - ((i+1)/len(batch))\<close>, which is
  \<open>1 - 3/3 = 0\<close> here and not the dropped fraction \<open>1 - 2/3\<close>.
\<close>

theorem collate_fn_drop_ratio_off_by_one:
  "length (x_encoded (collate_accept char_ds three_pairs (Some 4))) = 2 \<and>
   fst (collate_fn char_ds three_pairs (Some 4)) = [Dropping 0 4] \<and>
   fst (collate_fn char_ds three_pairs (Some 4)) \<noteq> [Dropping (1 - 2 / 3) 4]"
  by (simp add: collate_fn_def collate_accept_def collate_init_def char_ds_def
      char_vocab_def three_pairs_def Let_def)

subsection \<open>Dictionaries, files and sequencing\<close>

lemma map_of_dict_set: "map_of (dict_set k v d) = (map_of d)(k \<mapsto> v)"
  by (induction d) (auto simp: fun_eq_iff)



lemma fs_write_file [simp]: "map_of (fs (write_file p ls w)) = (map_of (fs w))(p \<mapsto> \<lparr> content = ls, mtime = clock w \<rparr>)"
  by (simp add: write_file_def map_of_dict_set)

lemma trace_write_file [simp]: "trace (write_file p ls w) = trace w"
  by (simp add: write_file_def)

lemma fs_emit [simp]: "fs (emit es w) = fs w"
  by (simp add: emit_def)

lemma clock_emit [simp]: "clock (emit es w) = clock w"
  by (simp add: emit_def)

lemma trace_emit [simp]: "trace (emit es w) = trace w @ es"
  by (simp add: emit_def)

lemma exists_file_emit [simp]: "exists_file (emit es w) p = exists_file w p"
  by (simp add: exists_file_def)

lemma exists_file_write: "exists_file (write_file q ls w) p \<longleftrightarrow> p = q \<or> exists_file w p"
  by (simp add: exists_file_def)

lemma seq_all_append:
  "seq_all (xs @ ys) w =
     (case seq_all xs w of (Some e, w') \<Rightarrow> (Some e, w') | (None, w') \<Rightarrow> seq_all ys w')"
  by (induction xs arbitrary: w) (auto split: prod.splits option.splits)

lemma for_each_Nil [simp]: "for_each body [] w = (None, w)"
  by (simp add: for_each_def)

lemma for_each_Cons:
  "for_each body (x # xs) w =
     (case body x w of (Some e, w') \<Rightarrow> (Some e, w') | (None, w') \<Rightarrow> for_each body xs w')"
  by (simp add: for_each_def split: prod.splits option.splits)

lemma for_each_append:
  "for_each body (xs @ ys) w =
     (case for_each body xs w of (Some e, w') \<Rightarrow> (Some e, w') | (None, w') \<Rightarrow> for_each body ys w')"
  by (simp add: for_each_def seq_all_append split: prod.splits option.splits)

lemma for_each_skip: "(\<And>x. x \<in> set xs \<Longrightarrow> body x w = (None, w)) \<Longrightarrow> for_each body xs w = (None, w)"
  by (induction xs) (auto simp: for_each_Cons)

subsection \<open>The metric check\<close>



lemma valid_metrics_eq:
  "fst (check_supported_metrics metrics sups) = (metrics \<inter> sups) \<union> {x \<in> metrics. startswith x ''hg_''}"
  by (simp add: check_supported_metrics_def Let_def)









lemma score_steps_outputs:
  "map output_file (score_steps H ds metrics bp sp) =
     map (path_join sp) [''sacrebleu_scores.json'', ''bertscore_scores.json'',
       ''comet_scores.json'', ''fairseq_scores.txt'', ''huggingface_scores.json'']"
  by (simp add: score_steps_def Let_def)

subsection \<open>parse\_metrics never leaves through an exception of its own\<close>













lemma Collect_insert_if:
  "{x \<in> insert a A. P x} = (if P a then insert a {x \<in> A. P x} else {x \<in> A. P x})"
  by auto




subsection \<open>The blocks of score\<close>

lemma score_unit_unfold:
  assumes "exists_file w (path_join (translations_beam_path L fn_name beam) ''src.txt'')"
    and "exists_file w (path_join (translations_beam_path L fn_name beam) ''ref.txt'')"
    and "exists_file w (path_join (translations_beam_path L fn_name beam) ''hyp.txt'')"
  shows "score_unit H L model_ds metrics force_overwrite (fn_name, beam) w =
     for_each (run_step force_overwrite)
       (score_steps H model_ds metrics (translations_beam_path L fn_name beam)
          (translations_beam_scores_path L fn_name beam)) w"
  using assms by (simp add: score_unit_def Let_def)

lemma run_step_eq:
  "run_step force_overwrite s w =
     (if gate s \<and> (force_overwrite \<or> \<not> exists_file w (output_file s)) then
        (case action s (fs (emit [Called (sub_call s)] w)) of
           Inl e \<Rightarrow> (Some e, emit [Called (sub_call s)] w)
         | Inr ls \<Rightarrow> (None, write_file (output_file s) ls (emit [Called (sub_call s)] w)))
      else (None, w))"
  by (simp add: run_step_def Let_def)

lemma run_step_raises:
  assumes "gate s" and "force_overwrite \<or> \<not> exists_file w (output_file s)"
    and "action s (fs w) = Inl e"
  shows "run_step force_overwrite s w = (Some e, emit [Called (sub_call s)] w)"
  using assms by (auto simp: run_step_def Let_def)

lemma for_each_raises:
  assumes "for_each body pre w = (None, w1)" and "body x w1 = (Some e, w2)"
  shows "for_each body (pre @ x # post) w = (Some e, w2)"
  using assms by (simp add: for_each_append for_each_Cons)

lemma hg_step:
  "last (score_steps H model_ds metrics bp sp) =
     \<lparr> gate = (hg_metrics metrics \<noteq> {}),
       output_file = path_join sp ''huggingface_scores.json'',
       sub_call = Call_compute_huggingface (path_join bp ''src.txt'') (path_join bp ''hyp.txt'')
                    (path_join bp ''ref.txt'') (path_join sp ''huggingface_scores.json'')
                    (hg_metrics metrics) (trg_lang model_ds),
       action = (\<lambda>f. compute_huggingface H f (path_join bp ''src.txt'') (path_join bp ''hyp.txt'')
                        (path_join bp ''ref.txt'') (hg_metrics metrics) (trg_lang model_ds)) \<rparr>"
  by (simp add: score_steps_def Let_def)

lemma score_steps_snoc:
  "score_steps H model_ds metrics bp sp =
     butlast (score_steps H model_ds metrics bp sp) @ [last (score_steps H model_ds metrics bp sp)]"
  by (rule append_butlast_last_id[symmetric]) (simp add: score_steps_def Let_def)

text \<open>
  Claim C4, as the code has it. A failure raised by the sub-routine of one tool leaves
  \<^verbatim>\<open>score\<close> at once: the blocks before it (in the order sacrebleu, bertscore, comet,
  fairseq, huggingface) have run, the blocks after it and all later units are not run,
  and \<^verbatim>\<open>score\<close> raises that failure.
\<close>

theorem score_failure_propagates:
  assumes "score_steps H model_ds metrics (translations_beam_path L fn_name beam)
             (translations_beam_scores_path L fn_name beam) = pre @ s # post"
    and "exists_file w (path_join (translations_beam_path L fn_name beam) ''src.txt'')"
    and "exists_file w (path_join (translations_beam_path L fn_name beam) ''ref.txt'')"
    and "exists_file w (path_join (translations_beam_path L fn_name beam) ''hyp.txt'')"
    and "for_each (run_step force_overwrite) pre w = (None, w1)"
    and "gate s" and "force_overwrite \<or> \<not> exists_file w1 (output_file s)"
    and "action s (fs w1) = Inl e"
  shows "score_unit H L model_ds metrics force_overwrite (fn_name, beam) w =
           (Some e, emit [Called (sub_call s)] w1) \<and>
         for_each (score_unit H L model_ds metrics force_overwrite) ((fn_name, beam) # rest) w =
           (Some e, emit [Called (sub_call s)] w1)"
proof -
  have r: "run_step force_overwrite s w1 = (Some e, emit [Called (sub_call s)] w1)"
    using assms(6,7,8) by (rule run_step_raises)
  have u: "score_unit H L model_ds metrics force_overwrite (fn_name, beam) w =
           (Some e, emit [Called (sub_call s)] w1)"
    unfolding score_unit_unfold[OF assms(2,3,4)] assms(1)
    using assms(5) r by (rule for_each_raises)
  then show ?thesis by (simp add: for_each_Cons)
qed

text \<open>
  Claim C10, as the code has it. A metric name that starts with \<^verbatim>\<open>hg_\<close> is valid whatever
  the table of supported metrics is, is routed to the tool \<^verbatim>\<open>huggingface\<close>, and its name
  without the prefix is among the metrics handed to the huggingface sub-routine. In
  \<^verbatim>\<open>score\<close>, for a unit whose three text files exist and whose earlier blocks raised
  nothing, that sub-routine is called exactly when \<^verbatim>\<open>force_overwrite\<close> is set or
  \<^verbatim>\<open>huggingface_scores.json\<close> does not exist yet; otherwise the block does nothing.
\<close>

theorem hg_metrics_routed:
  assumes "x \<in> metrics" and "startswith x ''hg_''"
  shows "x \<in> fst (check_supported_metrics metrics sups) \<and>
         ''huggingface'' \<in> get_metrics_tool metrics \<and>
         drop 3 x \<in> hg_metrics metrics \<and>
         (let bp = translations_beam_path L fn_name beam;
              sp = translations_beam_scores_path L fn_name beam;
              out = path_join sp ''huggingface_scores.json'';
              c = Call_compute_huggingface (path_join bp ''src.txt'') (path_join bp ''hyp.txt'')
                    (path_join bp ''ref.txt'') out (hg_metrics metrics) (trg_lang model_ds)
          in \<forall>w w1.
               exists_file w (path_join bp ''src.txt'') \<and> exists_file w (path_join bp ''ref.txt'') \<and>
               exists_file w (path_join bp ''hyp.txt'') \<and>
               for_each (run_step force_overwrite)
                 (butlast (score_steps H model_ds metrics bp sp)) w = (None, w1) \<longrightarrow>
               score_unit H L model_ds metrics force_overwrite (fn_name, beam) w =
                 (if force_overwrite \<or> \<not> exists_file w1 out then
                    (case compute_huggingface H (fs w1) (path_join bp ''src.txt'')
                            (path_join bp ''hyp.txt'') (path_join bp ''ref.txt'')
                            (hg_metrics metrics) (trg_lang model_ds) of
                       Inl e \<Rightarrow> (Some e, emit [Called c] w1)
                     | Inr ls \<Rightarrow> (None, write_file out ls (emit [Called c] w1)))
                  else (None, w1)))"
proof -
  have 1: "x \<in> fst (check_supported_metrics metrics sups)"
    using assms by (simp add: valid_metrics_eq)
  have 2: "''huggingface'' \<in> get_metrics_tool metrics"
    unfolding get_metrics_tool_def using assms by (auto intro!: bexI[of _ x])
  have 3: "drop 3 x \<in> hg_metrics metrics"
    unfolding hg_metrics_def using assms by blast
  then have ne: "hg_metrics metrics \<noteq> {}" by blast
  define bp where "bp = translations_beam_path L fn_name beam"
  define sp where "sp = translations_beam_scores_path L fn_name beam"
  define out where "out = path_join sp ''huggingface_scores.json''"
  define c where "c = Call_compute_huggingface (path_join bp ''src.txt'') (path_join bp ''hyp.txt'')
                    (path_join bp ''ref.txt'') out (hg_metrics metrics) (trg_lang model_ds)"
  let ?steps = "score_steps H model_ds metrics bp sp"
  have 4: "score_unit H L model_ds metrics force_overwrite (fn_name, beam) w =
                 (if force_overwrite \<or> \<not> exists_file w1 out then
                    (case compute_huggingface H (fs w1) (path_join bp ''src.txt'')
                            (path_join bp ''hyp.txt'') (path_join bp ''ref.txt'')
                            (hg_metrics metrics) (trg_lang model_ds) of
                       Inl e \<Rightarrow> (Some e, emit [Called c] w1)
                     | Inr ls \<Rightarrow> (None, write_file out ls (emit [Called c] w1)))
                  else (None, w1))"
    if ex: "exists_file w (path_join bp ''src.txt'')" "exists_file w (path_join bp ''ref.txt'')"
       "exists_file w (path_join bp ''hyp.txt'')"
      and pre: "for_each (run_step force_overwrite) (butlast ?steps) w = (None, w1)" for w w1
  proof -
    have u: "score_unit H L model_ds metrics force_overwrite (fn_name, beam) w =
        for_each (run_step force_overwrite) ?steps w"
      using ex unfolding bp_def sp_def by (rule score_unit_unfold)
    have "for_each (run_step force_overwrite) ?steps w =
        for_each (run_step force_overwrite) (butlast ?steps @ [last ?steps]) w"
      using score_steps_snoc[of H model_ds metrics bp sp] by simp
    also have "\<dots> = run_step force_overwrite (last ?steps) w1"
      using pre by (simp add: for_each_append for_each_Cons split: prod.splits option.splits)
    also have "\<dots> = (if force_overwrite \<or> \<not> exists_file w1 out then
                    (case compute_huggingface H (fs w1) (path_join bp ''src.txt'')
                            (path_join bp ''hyp.txt'') (path_join bp ''ref.txt'')
                            (hg_metrics metrics) (trg_lang model_ds) of
                       Inl e \<Rightarrow> (Some e, emit [Called c] w1)
                     | Inr ls \<Rightarrow> (None, write_file out ls (emit [Called c] w1)))
                  else (None, w1))"
    proof -
      have g: "gate (last ?steps)" using ne by (simp add: hg_step)
      have o: "output_file (last ?steps) = out" by (simp add: hg_step out_def)
      have sc: "sub_call (last ?steps) = c" by (simp add: hg_step c_def out_def)
      have ac: "action (last ?steps) (fs w1) =
          compute_huggingface H (fs w1) (path_join bp ''src.txt'') (path_join bp ''hyp.txt'')
            (path_join bp ''ref.txt'') (hg_metrics metrics) (trg_lang model_ds)"
        by (simp add: hg_step)
      show ?thesis
        unfolding run_step_eq o sc fs_emit ac using g by simp
    qed
    finally show ?thesis using u by simp
  qed
  show ?thesis
    unfolding Let_def bp_def[symmetric] sp_def[symmetric] out_def[symmetric] c_def[symmetric]
    using 1 2 3 4 by blast
qed

text \<open>
  Claim C4 as stated fails: with \<^verbatim>\<open>bleu\<close>, \<^verbatim>\<open>bertscore\<close> and \<^verbatim>\<open>comet\<close> requested and a
  \<^verbatim>\<open>bertscore\<close> sub-routine that raises, \<^verbatim>\<open>score\<close> raises that failure after the calls of
  sacrebleu and bertscore; the comet block is requested and is never run.
\<close>

theorem score_failure_counterexample:
  "fst (score demo_hooks demo_layout demo_translator demo_ds demo_ds [1]
          {''bleu'', ''bertscore'', ''comet''} False translated_world) =
     Some (ExternalError ''bertscore'') \<and>
   trace (snd (score demo_hooks demo_layout demo_translator demo_ds demo_ds [1]
          {''bleu'', ''bertscore'', ''comet''} False translated_world)) =
     [Called (Call_translate ''eval/translations/beam1/'' 1 0),
      Called (Call_compute_sacrebleu ''eval/translations/beam1/ref.txt''
                ''eval/translations/beam1/hyp.txt'' ''eval/scores/beam1/sacrebleu_scores.json''
                {''bleu'', ''bertscore'', ''comet''}),
      Called (Call_compute_bertscore ''eval/translations/beam1/ref.txt''
                ''eval/translations/beam1/hyp.txt'' ''eval/scores/beam1/bertscore_scores.json''
                ''en'')] \<and>
   tool_metrics ''comet'' \<inter> {''bleu'', ''bertscore'', ''comet''} \<noteq> {} \<and>
   \<not> exists_file (snd (score demo_hooks demo_layout demo_translator demo_ds demo_ds [1]
          {''bleu'', ''bertscore'', ''comet''} False translated_world))
        ''eval/scores/beam1/comet_scores.json''"
  by code_simp

theorem score_failure_propagates_witness:
  "fst (score_unit demo_hooks demo_layout demo_ds {''bleu'', ''bertscore'', ''comet''} False
          ([], 1) translated_world) = Some (ExternalError ''bertscore'')"
proof -
  let ?M = "{''bleu'', ''bertscore'', ''comet''}"
  let ?steps = "score_steps demo_hooks demo_ds ?M (translations_beam_path demo_layout [] 1)
                  (translations_beam_scores_path demo_layout [] 1)"
  let ?w1 = "snd (for_each (run_step False) (take 1 ?steps) translated_world)"
  have split: "?steps = take 1 ?steps @ (?steps ! 1) # drop 2 ?steps"
    by (simp add: score_steps_def Let_def)
  have e1: "exists_file translated_world (path_join (translations_beam_path demo_layout [] 1) ''src.txt'')"
    by code_simp
  have e2: "exists_file translated_world (path_join (translations_beam_path demo_layout [] 1) ''ref.txt'')"
    by code_simp
  have e3: "exists_file translated_world (path_join (translations_beam_path demo_layout [] 1) ''hyp.txt'')"
    by code_simp
  have "fst (for_each (run_step False) (take 1 ?steps) translated_world) = None"
    by code_simp
  then have pre: "for_each (run_step False) (take 1 ?steps) translated_world = (None, ?w1)"
    by (simp add: prod_eq_iff)
  have g: "gate (?steps ! 1)" by code_simp
  have ne: "False \<or> \<not> exists_file ?w1 (output_file (?steps ! 1))" by code_simp
  have a: "action (?steps ! 1) (fs ?w1) = Inl (ExternalError ''bertscore'')" by code_simp
  from score_failure_propagates[OF split e1 e2 e3 pre g ne a] show ?thesis by simp
qed

text \<open>
  Claim C10 as stated fails in its last part: with the score file of the huggingface
  tool in place and \<^verbatim>\<open>force_overwrite\<close> unset, \<^verbatim>\<open>score\<close> for the metric \<^verbatim>\<open>hg_meteor\<close> leaves
  the world as it is; the only call in the trace is the earlier call of the engine.
\<close>

theorem hg_cached_counterexample:
  "startswith ''hg_meteor'' ''hg_'' \<and>
   score demo_hooks demo_layout demo_translator demo_ds demo_ds [1] {''hg_meteor''} False
     cached_world = (None, cached_world) \<and>
   trace cached_world = [Called (Call_translate ''eval/translations/beam1/'' 1 0)]"
  by code_simp

theorem hg_metrics_routed_witness:
  "''hg_meteor'' \<in> fst (check_supported_metrics {''hg_meteor''} {}) \<and>
   ''huggingface'' \<in> get_metrics_tool {''hg_meteor''} \<and>
   drop 3 ''hg_meteor'' \<in> hg_metrics {''hg_meteor''} \<and>
   trace (snd (score_unit demo_hooks demo_layout demo_ds {''hg_meteor''} False ([], 1)
                 translated_world)) =
     trace translated_world @
       [Called (Call_compute_huggingface
          (path_join (translations_beam_path demo_layout [] 1) ''src.txt'')
          (path_join (translations_beam_path demo_layout [] 1) ''hyp.txt'')
          (path_join (translations_beam_path demo_layout [] 1) ''ref.txt'')
          (path_join (translations_beam_scores_path demo_layout [] 1) ''huggingface_scores.json'')
          (hg_metrics {''hg_meteor''}) (trg_lang demo_ds))] \<and>
   score_unit demo_hooks demo_layout demo_ds {''hg_meteor''} False ([], 1) cached_world =
     (None, cached_world)"
proof -
  let ?bp = "translations_beam_path demo_layout [] 1"
  let ?sp = "translations_beam_scores_path demo_layout [] 1"
  let ?out = "path_join ?sp ''huggingface_scores.json''"
  have x: "''hg_meteor'' \<in> {''hg_meteor''}" by simp
  have h: "startswith ''hg_meteor'' ''hg_''" by (simp add: startswith_def)
  note T = hg_metrics_routed[OF x h, where L = demo_layout and fn_name = "[]" and beam = 1
      and H = demo_hooks and model_ds = demo_ds and force_overwrite = False, unfolded Let_def]
  have p1: "exists_file translated_world (path_join ?bp ''src.txt'') \<and>
     exists_file translated_world (path_join ?bp ''ref.txt'') \<and>
     exists_file translated_world (path_join ?bp ''hyp.txt'') \<and>
     for_each (run_step False) (butlast (score_steps demo_hooks demo_ds {''hg_meteor''} ?bp ?sp))
       translated_world = (None, translated_world)"
    by code_simp
  have p2: "exists_file cached_world (path_join ?bp ''src.txt'') \<and>
     exists_file cached_world (path_join ?bp ''ref.txt'') \<and>
     exists_file cached_world (path_join ?bp ''hyp.txt'') \<and>
     for_each (run_step False) (butlast (score_steps demo_hooks demo_ds {''hg_meteor''} ?bp ?sp))
       cached_world = (None, cached_world)"
    by code_simp
  have n1: "\<not> exists_file translated_world ?out" by code_simp
  have n2: "exists_file cached_world ?out" by code_simp
  have c: "compute_huggingface demo_hooks f s y r m l = Inr [''huggingface'']" for f s y r m l
    by (simp add: demo_hooks_def)
  note U = T[THEN conjunct2, THEN conjunct2, THEN conjunct2, THEN spec, THEN spec, THEN mp]
  have a: "trace (snd (score_unit demo_hooks demo_layout demo_ds {''hg_meteor''} False ([], 1)
                 translated_world)) =
     trace translated_world @
       [Called (Call_compute_huggingface (path_join ?bp ''src.txt'') (path_join ?bp ''hyp.txt'')
          (path_join ?bp ''ref.txt'') ?out (hg_metrics {''hg_meteor''}) (trg_lang demo_ds))]"
    unfolding U[OF p1] using n1 by (simp add: c)
  have b: "score_unit demo_hooks demo_layout demo_ds {''hg_meteor''} False ([], 1) cached_world =
     (None, cached_world)"
    unfolding U[OF p2] using n2 by simp
  show ?thesis
    using T[where sups = "{}", THEN conjunct1] T[where sups = "{}", THEN conjunct2, THEN conjunct1]
      T[where sups = "{}", THEN conjunct2, THEN conjunct2, THEN conjunct1] a b
    by (simp only: simp_thms)
qed

subsection \<open>Evaluations of translate and parse\_metrics\<close>

text \<open>
  Claim C3, evaluated on the code. The first call of \<^verbatim>\<open>translate\<close> with beam 5 decodes one
  line for two reference lines and raises the error on the numbers of lines, after
  \<^verbatim>\<open>hyp.tok\<close> has been written. The same call again finds \<^verbatim>\<open>hyp.tok\<close>, skips the unit
  together with the check and returns without an exception; \<^verbatim>\<open>score\<close> then finds the three
  text files and runs sacrebleu on one hypothesis line against two reference lines.
\<close>

theorem line_count_not_rechecked:
  "translate demo_hooks demo_layout demo_translator demo_ds demo_ds [5] False demo_world =
     (Some (ValueError_line_count 2 1), truncated_world) \<and>
   fst (translate demo_hooks demo_layout demo_translator demo_ds demo_ds [5] False truncated_world) =
     None \<and>
   trace (snd (translate demo_hooks demo_layout demo_translator demo_ds demo_ds [5] False
                 truncated_world)) = trace truncated_world \<and>
   count_file_lines
     (snd (translate demo_hooks demo_layout demo_translator demo_ds demo_ds [5] False truncated_world))
     ''eval/translations/beam5/hyp.txt'' = Inr 1 \<and>
   count_file_lines
     (snd (translate demo_hooks demo_layout demo_translator demo_ds demo_ds [5] False truncated_world))
     ''eval/translations/beam5/ref.txt'' = Inr 2 \<and>
   fst (score demo_hooks demo_layout demo_translator demo_ds demo_ds [5] {''bleu''} False
          (snd (translate demo_hooks demo_layout demo_translator demo_ds demo_ds [5] False
                  truncated_world))) = None \<and>
   trace (snd (score demo_hooks demo_layout demo_translator demo_ds demo_ds [5] {''bleu''} False
          (snd (translate demo_hooks demo_layout demo_translator demo_ds demo_ds [5] False
                  truncated_world)))) =
     [Called (Call_translate ''eval/translations/beam5/'' 5 0),
      Called (Call_compute_sacrebleu ''eval/translations/beam5/ref.txt''
                ''eval/translations/beam5/hyp.txt'' ''eval/scores/beam5/sacrebleu_scores.json''
                {''bleu''})]"
  by code_simp

text \<open>
  Claim C1, evaluated on the code. With the default (unnamed) split and the beams 5 and
  1 the \<^verbatim>\<open>"translations"\<close> dictionary has the keys \<^verbatim>\<open>beam5\<close> and \<^verbatim>\<open>beam1\<close>, each with its own
  score. With one split named \<^verbatim>\<open>short\<close> and the same beams, every beam replaces the whole
  value under \<^verbatim>\<open>short\<close> (\<^verbatim>\<open>update\<close> is shallow): only \<^verbatim>\<open>beam1\<close>, the last beam, is left and
  the scores of beam 5 are lost.
\<close>

theorem named_split_keeps_last_beam:
  "snd (parse_metrics demo_parsing demo_layout demo_translator demo_ds demo_ds [5, 1] {''bleu''}
          (Some ''autonmt'') (scored_fs [])) =
     Inr (Some ((initial_scores demo_layout demo_translator demo_ds demo_ds (Some ''autonmt''))
       \<lparr> sr_translations :=
           [(''beam5'', Beam_scores [(''sacrebleu_bleu_score'', 5)]),
            (''beam1'', Beam_scores [(''sacrebleu_bleu_score'', 1)])] \<rparr>)) \<and>
   snd (parse_metrics demo_parsing demo_layout split_translator demo_ds demo_ds [5, 1] {''bleu''}
          (Some ''autonmt'') (scored_fs ''short'')) =
     Inr (Some ((initial_scores demo_layout split_translator demo_ds demo_ds (Some ''autonmt''))
       \<lparr> sr_translations :=
           [(''short'', Split_scores [(''beam1'', [(''sacrebleu_bleu_score'', 1)])])] \<rparr>))"
  by code_simp

subsection \<open>The flat keys of parse\_metrics\<close>







lemma lower_append: "lower (a @ b) = lower a @ lower b"
  by (simp add: lower_def)














subsection \<open>Files are kept\<close>

lemma keeps_filesD: "keeps_files f \<Longrightarrow> f w = (r, w') \<Longrightarrow> exists_file w p \<Longrightarrow> exists_file w' p"
  unfolding keeps_files_def by blast

lemma seq_all_Cons_cases:
  assumes "seq_all (f # rest) w = (r, w')"
  obtains (raised) e where "f w = (Some e, w')" "r = Some e"
        | (went_on) w1 where "f w = (None, w1)" "seq_all rest w1 = (r, w')"
proof -
  obtain r1 w1 where f: "f w = (r1, w1)" by (cases "f w")
  show ?thesis
  proof (cases r1)
    case None
    then have "seq_all rest w1 = (r, w')" using assms f by simp
    moreover have "f w = (None, w1)" using f None by simp
    ultimately show ?thesis using went_on by blast
  next
    case (Some e)
    then have "w1 = w'" "r = Some e" using assms f by simp_all
    then have "f w = (Some e, w')" using f Some by simp
    then show ?thesis using \<open>r = Some e\<close> by (rule raised)
  qed
qed

lemma keeps_seq_all: "(\<And>f. f \<in> set xs \<Longrightarrow> keeps_files f) \<Longrightarrow> keeps_files (seq_all xs)"
proof (induction xs)
  case Nil
  then show ?case by (simp add: keeps_files_def)
next
  case (Cons f rest)
  have kf: "keeps_files f" using Cons.prems by simp
  have kr: "keeps_files (seq_all rest)" using Cons by simp
  show ?case
    unfolding keeps_files_def
  proof (intro allI impI)
    fix w r w' p
    assume s: "seq_all (f # rest) w = (r, w')" and e: "exists_file w p"
    from s show "exists_file w' p"
    proof (cases rule: seq_all_Cons_cases)
      case (raised e')
      then show ?thesis using kf e keeps_filesD by blast
    next
      case (went_on w1)
      then have "exists_file w1 p" using kf e keeps_filesD by blast
      then show ?thesis using kr went_on(2) keeps_filesD by blast
    qed
  qed
qed

lemma keeps_for_each: "(\<And>x. x \<in> set xs \<Longrightarrow> keeps_files (body x)) \<Longrightarrow> keeps_files (for_each body xs)"
  unfolding for_each_def by (rule keeps_seq_all) auto

lemma keeps_copyfile: "keeps_files (copyfile a b)"
  by (auto simp: keeps_files_def copyfile_def exists_file_write split: option.splits)

lemma keeps_file_transform: "keeps_files (file_transform t a b l force_overwrite)"
  by (auto simp: keeps_files_def file_transform_def exists_file_write split: sum.splits option.splits)

lemma keeps_run_translate: "keeps_files (run_translate H output_path beam i force_overwrite)"
  by (auto simp: keeps_files_def run_translate_def Let_def exists_file_write split: sum.splits)

lemma keeps_check_lines: "keeps_files (check_lines output_path)"
  by (auto simp: keeps_files_def check_lines_def split: sum.splits if_splits)

lemma keeps_copy_src_ref: "keeps_files (copy_src_ref H filter_fn a b c d)"
proof (cases filter_fn)
  case None
  have "keeps_files (seq_all [copyfile a c, copyfile b d])"
    by (rule keeps_seq_all) (auto simp: keeps_copyfile)
  then show ?thesis
    using None by (simp add: keeps_files_def copy_src_ref_def)
next
  case (Some g)
  then show ?thesis
    by (auto simp: keeps_files_def copy_src_ref_def exists_file_write
        split: option.splits prod.splits)
qed

lemma exists_fold_write:
  "exists_file w p \<Longrightarrow> exists_file (fold (\<lambda>(q, ls). write_file q ls) files w) p"
  by (induction files arbitrary: w) (auto simp: exists_file_write)

lemma keeps_preprocess_external: "keeps_files (preprocess_external H force_overwrite)"
  by (auto simp: keeps_files_def preprocess_external_def exists_fold_write split: sum.splits)

lemma keeps_stage_file: "keeps_files (stage_file H L force_overwrite ts_fname)"
  unfolding stage_file_def Let_def
  by (rule keeps_seq_all) (auto simp: keeps_copyfile keeps_file_transform)

lemma keeps_stage_eval: "keeps_files (stage_eval H L eval_ds force_overwrite)"
  unfolding stage_eval_def
  by (rule keeps_seq_all) (auto simp: keeps_preprocess_external intro!: keeps_for_each keeps_stage_file)

lemma translate_unit_skip:
  "exists_file w (path_join (translations_beam_path L fn_name beam) ''hyp.tok'') \<Longrightarrow>
   translate_unit H L model_ds eval_ds False (i, fn_name, filter_fn, beam) w = (None, w)"
  by (simp add: translate_unit_def Let_def)

lemma translate_unit_cases:
  assumes "translate_unit H L model_ds eval_ds force_overwrite (i, fn_name, filter_fn, beam) w = (r, w')"
  obtains (skipped) "exists_file w (path_join (translations_beam_path L fn_name beam) ''hyp.tok'')"
            "r = None" "w' = w"
        | (decoded) rest where "\<And>f. f \<in> set rest \<Longrightarrow> keeps_files f"
            "seq_all (run_translate H (translations_beam_path L fn_name beam) beam i force_overwrite # rest) w
               = (r, w')"
proof (cases "force_overwrite \<or> \<not> exists_file w (path_join (translations_beam_path L fn_name beam) ''hyp.tok'')")
  case False
  then have ex: "exists_file w (path_join (translations_beam_path L fn_name beam) ''hyp.tok'')"
    by simp
  have "translate_unit H L model_ds eval_ds force_overwrite (i, fn_name, filter_fn, beam) w = (None, w)"
    using False by (simp add: translate_unit_def Let_def)
  then have rn: "r = None" and ww: "w' = w" using assms by simp_all
  from ex rn ww show ?thesis by (rule skipped)
next
  case True
  let ?op = "translations_beam_path L fn_name beam"
  let ?rest = "[copy_src_ref H filter_fn
                  (path_join (dst_raw_path L) (test_name eval_ds @ ''.'' @ src_lang model_ds))
                  (path_join (dst_raw_path L) (test_name eval_ds @ ''.'' @ trg_lang model_ds))
                  (path_join ?op ''src.txt'') (path_join ?op ''ref.txt'')] @
               (if preprocess_predict_fn model_ds \<noteq> None then
                  [file_transform (preprocess_predict_file H) (path_join ?op ''src.txt'')
                     (path_join ?op ''src.txt'') (src_lang model_ds) force_overwrite,
                   file_transform (preprocess_predict_file H) (path_join ?op ''ref.txt'')
                     (path_join ?op ''ref.txt'') (trg_lang model_ds) force_overwrite]
                else []) @
               [file_transform (decode_file H) (path_join ?op ''hyp.tok'')
                  (path_join ?op ''hyp.txt'') (trg_lang model_ds) force_overwrite,
                check_lines ?op]"
  have k: "\<And>f. f \<in> set ?rest \<Longrightarrow> keeps_files f"
    by (auto simp: keeps_copy_src_ref keeps_file_transform keeps_check_lines split: if_splits)
  have "translate_unit H L model_ds eval_ds force_overwrite (i, fn_name, filter_fn, beam) w =
      seq_all (run_translate H ?op beam i force_overwrite # ?rest) w"
    using True by (simp add: translate_unit_def Let_def)
  then have s: "seq_all (run_translate H ?op beam i force_overwrite # ?rest) w = (r, w')"
    using assms by simp
  show ?thesis
  proof (rule decoded)
    show "\<And>f. f \<in> set ?rest \<Longrightarrow> keeps_files f" by (rule k)
    show "seq_all (run_translate H ?op beam i force_overwrite # ?rest) w = (r, w')" by (rule s)
  qed
qed

lemma keeps_translate_unit: "keeps_files (translate_unit H L model_ds eval_ds force_overwrite u)"
  unfolding keeps_files_def
proof (intro allI impI)
  fix w r w' p
  assume t: "translate_unit H L model_ds eval_ds force_overwrite u w = (r, w')" and e: "exists_file w p"
  obtain i fn_name filter_fn beam where u: "u = (i, fn_name, filter_fn, beam)" by (cases u)
  from t[unfolded u] show "exists_file w' p"
  proof (cases rule: translate_unit_cases)
    case skipped
    then show ?thesis using e by simp
  next
    case (decoded rest)
    have "keeps_files (seq_all (run_translate H (translations_beam_path L fn_name beam) beam i
        force_overwrite # rest))"
      by (rule keeps_seq_all) (use decoded(1) keeps_run_translate in auto)
    then show ?thesis using decoded(2) e keeps_filesD by blast
  qed
qed

lemma translate_unit_done:
  assumes "translate_unit H L model_ds eval_ds force_overwrite u w = (None, w')"
  shows "exists_file w' (marker L u)"
proof -
  obtain i fn_name filter_fn beam where u: "u = (i, fn_name, filter_fn, beam)" by (cases u)
  let ?m = "path_join (translations_beam_path L fn_name beam) ''hyp.tok''"
  from assms[unfolded u] have "exists_file w' ?m"
  proof (cases rule: translate_unit_cases)
    case skipped
    then show ?thesis by simp
  next
    case (decoded rest)
    from decoded(2) show ?thesis
    proof (cases rule: seq_all_Cons_cases)
      case (raised e)
      then show ?thesis by simp
    next
      case (went_on w1)
      have "exists_file w1 ?m"
        using went_on(1)
        by (auto simp: run_translate_def Let_def exists_file_write split: sum.splits)
      moreover have "keeps_files (seq_all rest)"
        by (rule keeps_seq_all) (use decoded(1) in auto)
      ultimately show ?thesis using went_on(2) keeps_filesD by blast
    qed
  qed
  then show ?thesis by (simp add: marker_def u)
qed

lemma translate_units_done:
  assumes "for_each (translate_unit H L model_ds eval_ds force_overwrite) units w = (None, w')"
  shows "\<forall>u\<in>set units. exists_file w' (marker L u)"
  using assms
proof (induction units arbitrary: w)
  case Nil
  then show ?case by simp
next
  case (Cons u units)
  from Cons.prems[unfolded for_each_def] have
    s: "seq_all (translate_unit H L model_ds eval_ds force_overwrite u #
          map (translate_unit H L model_ds eval_ds force_overwrite) units) w = (None, w')"
    by simp
  from s show ?case
  proof (cases rule: seq_all_Cons_cases)
    case (raised e)
    then show ?thesis by simp
  next
    case (went_on w1)
    have r: "for_each (translate_unit H L model_ds eval_ds force_overwrite) units w1 = (None, w')"
      using went_on(2) by (simp add: for_each_def)
    have "exists_file w1 (marker L u)" using went_on(1) by (rule translate_unit_done)
    moreover have "keeps_files (for_each (translate_unit H L model_ds eval_ds force_overwrite) units)"
      by (rule keeps_for_each) (rule keeps_translate_unit)
    ultimately have "exists_file w' (marker L u)" using r keeps_filesD by blast
    then show ?thesis using Cons.IH[OF r] by simp
  qed
qed

lemma translate_units_skip:
  assumes "\<forall>u\<in>set units. exists_file w (marker L u)"
  shows "for_each (translate_unit H L model_ds eval_ds False) units w = (None, w)"
proof (rule for_each_skip)
  fix u assume "u \<in> set units"
  then have m: "exists_file w (marker L u)" using assms by blast
  obtain i fn_name filter_fn beam where u: "u = (i, fn_name, filter_fn, beam)" by (cases u)
  show "translate_unit H L model_ds eval_ds False u w = (None, w)"
    unfolding u using m by (intro translate_unit_skip) (simp add: marker_def u)
qed

(*PROOFS*)

end
